theory Spec2Isabelle
  imports Main "HOL-Library.Multiset"
begin

section \<open>JavaScript values and errors\<close>

text \<open>
  Values of untyped (\<open>any\<close>) parameters and of dictionary entries. Numbers are the
  integral values the renderer handles (millisecond time stamps, comparison results);
  an object is its list of own properties.
\<close>

datatype jsval =
    JUndefined
  | JNull
  | JBool bool
  | JNum int
  | JStr string
  | JObj "(string \<times> jsval) list"

text \<open>The truthiness test of \<open>if (v)\<close>, \<open>v && w\<close>, \<open>v || w\<close> and \<open>Boolean(v)\<close>.\<close>

fun truthy :: "jsval \<Rightarrow> bool" where
  "truthy JUndefined = False"
| "truthy JNull = False"
| "truthy (JBool b) = b"
| "truthy (JNum n) = (n \<noteq> 0)"
| "truthy (JStr s) = (s \<noteq> [])"
| "truthy (JObj ps) = True"

text \<open>
  Reading property \<open>k\<close> of a value that is neither \<open>undefined\<close> nor \<open>null\<close>: an object
  gives its own property or \<open>undefined\<close>, a primitive has no such property. The
  renderer reads properties this way only behind a truthiness test of the value.
\<close>

fun get_prop :: "jsval \<Rightarrow> string \<Rightarrow> jsval" where
  "get_prop (JObj ps) k = (case map_of ps k of Some v \<Rightarrow> v | None \<Rightarrow> JUndefined)"
| "get_prop v k = JUndefined"

text \<open>
  \<open>TypeError\<close> is what reading or writing a property of \<open>undefined\<close> or \<open>null\<close> raises;
  \<open>Error msg\<close> is \<open>throw new Error(msg)\<close>.
\<close>

datatype error = TypeError | Error string


section \<open>Events, segments and elements\<close>

text \<open>A \<open>DateMarker\<close> is a date object, identified with its \<open>valueOf()\<close> in milliseconds.\<close>

type_synonym DateMarker = int

record DateRange =
  range_start :: "DateMarker option"
  range_end :: "DateMarker option"

record EventInstance =
  instanceId :: string
  instance_range :: DateRange
  forcedStartTzo :: "int option"
  forcedEndTzo :: "int option"

text \<open>
  An event definition: the fields the renderer reads, and \<open>otherProps\<close> for the remaining
  own properties of the object (they matter where the object is spread).
\<close>

record EventDef =
  publicId :: string
  allDay :: bool
  hasEnd :: bool
  extendedProps :: "(string \<times> jsval) list"
  otherProps :: "(string \<times> jsval) list"

record EventUi =
  classNames :: "string list"

text \<open>
  \<open>eventRange.def\<close>, \<open>eventRange.instance\<close> and \<open>eventRange.ui\<close>. The instance may be
  missing (\<open>renderSelectedInstance\<close> tests for it).
\<close>

record EventRenderRange =
  er_def :: EventDef
  er_instance :: "EventInstance option"
  er_ui :: EventUi

text \<open>
  A DOM element as far as the renderer touches it: its class list and its
  \<open>style.visibility\<close>; \<open>markup\<close> is the text it was parsed from.
\<close>

record element =
  markup :: string
  classList :: "string list"
  visibility :: string

text \<open>
  A segment. \<open>el\<close> is \<open>None\<close> until an element is assigned. Every segment is an object
  of its own and owns its element, so updating the element of one segment is an update
  of that entry of the list.
\<close>

record Seg =
  isStart :: bool
  isEnd :: bool
  eventRange :: EventRenderRange
  el :: "element option"


section \<open>Context, options and renderer state\<close>

text \<open>
  \<open>context.dateEnv\<close> with the two methods the renderer calls. \<open>format\<close> takes the start,
  the formatter and \<open>forcedTzo\<close>; \<open>formatRange\<close> takes start, end, the formatter,
  \<open>forcedStartTzo\<close> and \<open>forcedEndTzo\<close>. Both belong to the date library and are
  parameters here. A date or formatter of \<open>None\<close> is \<open>null\<close> or \<open>undefined\<close>.
\<close>

record 'f DateEnv =
  format :: "DateMarker option \<Rightarrow> 'f option \<Rightarrow> int option \<Rightarrow> string"
  formatRange :: "DateMarker option \<Rightarrow> DateMarker option \<Rightarrow> 'f option \<Rightarrow> int option \<Rightarrow> int option \<Rightarrow> string"

record Options =
  opt_eventTimeFormat :: jsval
  opt_defaultRangeSeparator :: jsval
  opt_displayEventTime :: "bool option"
  opt_displayEventEnd :: "bool option"

record 'f ComponentContext =
  dateEnv :: "'f DateEnv"
  options :: Options

text \<open>Calls that leave the renderer: the two triggers and the two sizing hooks.\<close>

datatype effect =
    TriggerPositionedSegs "Seg list" bool
  | TriggerWillRemoveSegs "Seg list" bool
  | ComputeSegSizes "Seg list" jsval
  | AssignSegSizes "Seg list" jsval

text \<open>
  The fields of \<open>FgEventRenderer\<close>. The three computed options are unset before the first
  render: an unset formatter is \<open>None\<close>, an unset flag is falsy. \<open>effects\<close> records the
  outward calls in the order they are made.
\<close>

record 'f FgEventRenderer =
  segs :: "Seg list"
  isSizeDirty :: bool
  eventTimeFormat :: "'f option"
  displayEventTime :: bool
  displayEventEnd :: bool
  effects :: "effect list"


section \<open>Time text\<close>

text \<open>
  \<open>_getTimeText(start, end, allDay, formatter?, displayEnd?, forcedStartTzo?, forcedEndTzo?)\<close>.
  An omitted \<open>formatter\<close> or \<open>displayEnd\<close> is \<open>None\<close> and falls back to the computed
  option. \<open>end\<close> is truthy exactly when it is a date (not \<open>null\<close>).
\<close>

definition u_getTimeText ::
  "'f FgEventRenderer \<Rightarrow> 'f ComponentContext \<Rightarrow> DateMarker option \<Rightarrow> DateMarker option \<Rightarrow> bool \<Rightarrow>
   'f option \<Rightarrow> bool option \<Rightarrow> int option \<Rightarrow> int option \<Rightarrow> string" where
  "u_getTimeText this ctx start end_marker isAllDay formatter displayEnd fStartTzo fEndTzo =
     (let formatter' = (case formatter of None \<Rightarrow> eventTimeFormat this | Some f \<Rightarrow> Some f);
          displayEnd' = (case displayEnd of None \<Rightarrow> displayEventEnd this | Some d \<Rightarrow> d)
      in if displayEventTime this \<and> \<not> isAllDay then
           (if displayEnd' \<and> end_marker \<noteq> None
            then formatRange (dateEnv ctx) start end_marker formatter' fStartTzo fEndTzo
            else format (dateEnv ctx) start formatter' fStartTzo)
         else [])"

text \<open>
  \<open>getTimeText(eventRange, formatter?, displayEnd?)\<close>. Reading \<open>instance.range\<close> of a
  missing instance raises.
\<close>

definition getTimeText ::
  "'f FgEventRenderer \<Rightarrow> 'f ComponentContext \<Rightarrow> EventRenderRange \<Rightarrow> 'f option \<Rightarrow> bool option \<Rightarrow>
   error + string" where
  "getTimeText this ctx er formatter displayEnd =
     (case er_instance er of
        None \<Rightarrow> Inl TypeError
      | Some inst \<Rightarrow>
          Inr (u_getTimeText this ctx
                 (range_start (instance_range inst))
                 (if hasEnd (er_def er) then range_end (instance_range inst) else None)
                 (allDay (er_def er))
                 formatter displayEnd
                 (forcedStartTzo inst) (forcedEndTzo inst)))"


section \<open>Computed options\<close>

text \<open>
  The imported helpers of the util and event-rendering modules are parameters:
  \<open>createFormatter(input, separator)\<close>, \<open>htmlToElements(text)\<close>, which may leave an entry
  without an element, and \<open>filterSegsViaEls(context, segs, isMirror)\<close>.
\<close>

record 'f Imports =
  createFormatter :: "jsval \<Rightarrow> jsval \<Rightarrow> 'f"
  htmlToElements :: "string \<Rightarrow> element option list"
  filterSegsViaEls :: "'f ComponentContext \<Rightarrow> Seg list \<Rightarrow> bool \<Rightarrow> Seg list"

definition computeEventTimeFormat :: jsval where
  "computeEventTimeFormat =
     JObj [(''hour'', JStr ''numeric''), (''minute'', JStr ''2-digit''), (''omitZeroMinute'', JBool True)]"

definition computeDisplayEventTime :: bool where
  "computeDisplayEventTime = True"

definition computeDisplayEventEnd :: bool where
  "computeDisplayEventEnd = True"

text \<open>
  \<open>_updateComputedOptions(options)\<close>. The member \<open>updateComputedOptions\<close> is this function
  behind \<open>memoize\<close>, which skips the call when the argument is the one of the last call.
\<close>

definition u_updateComputedOptions ::
  "'f Imports \<Rightarrow> Options \<Rightarrow> 'f FgEventRenderer \<Rightarrow> 'f FgEventRenderer" where
  "u_updateComputedOptions imports opts this =
     (let eventTimeFormat' =
            createFormatter imports
              (if truthy (opt_eventTimeFormat opts) then opt_eventTimeFormat opts
               else computeEventTimeFormat)
              (opt_defaultRangeSeparator opts);
          displayEventTime' =
            (case opt_displayEventTime opts of None \<Rightarrow> computeDisplayEventTime | Some b \<Rightarrow> b);
          displayEventEnd' =
            (case opt_displayEventEnd opts of None \<Rightarrow> computeDisplayEventEnd | Some b \<Rightarrow> b)
      in this\<lparr>eventTimeFormat := Some eventTimeFormat',
              displayEventTime := displayEventTime',
              displayEventEnd := displayEventEnd'\<rparr>)"


section \<open>Rendering segment elements\<close>

text \<open>
  The loop \<open>for (i = 0; i < segs.length; i++) html += this.renderSegHtml(segs[i], mirrorInfo)\<close>
  with its accumulator. \<open>renderSegHtml\<close> is abstract in the class and a parameter here.
\<close>

fun concatSegHtml :: "(Seg \<Rightarrow> jsval \<Rightarrow> string) \<Rightarrow> jsval \<Rightarrow> Seg list \<Rightarrow> string \<Rightarrow> string" where
  "concatSegHtml renderSegHtml mirrorInfo [] html = html"
| "concatSegHtml renderSegHtml mirrorInfo (seg # rest) html =
     concatSegHtml renderSegHtml mirrorInfo rest (html @ renderSegHtml seg mirrorInfo)"

text \<open>
  The callback of \<open>htmlToElements(html).forEach((el, i) => ...)\<close>, from index \<open>i\<close> on.
  \<open>segs[i]\<close> beyond the end of the array is \<open>undefined\<close>; that is harmless for a missing
  element, and assigning \<open>seg.el\<close> on it raises.
\<close>

fun assignEls :: "element option list \<Rightarrow> nat \<Rightarrow> Seg list \<Rightarrow> error + Seg list" where
  "assignEls [] i sgs = Inr sgs"
| "assignEls (None # els) i sgs = assignEls els (Suc i) sgs"
| "assignEls (Some e # els) i sgs =
     (if i < length sgs
      then assignEls els (Suc i) (sgs[i := (sgs ! i)\<lparr>el := Some e\<rparr>])
      else Inl TypeError)"

definition renderSegEls ::
  "'f Imports \<Rightarrow> (Seg \<Rightarrow> jsval \<Rightarrow> string) \<Rightarrow> 'f ComponentContext \<Rightarrow> Seg list \<Rightarrow> jsval \<Rightarrow>
   error + Seg list" where
  "renderSegEls imports renderSegHtml ctx sgs mirrorInfo =
     (if sgs \<noteq> [] then
        (let html = concatSegHtml renderSegHtml mirrorInfo sgs []
         in case assignEls (htmlToElements imports html) 0 sgs of
              Inl err \<Rightarrow> Inl err
            | Inr sgs' \<Rightarrow> Inr (filterSegsViaEls imports ctx sgs' (truthy mirrorInfo)))
      else Inr sgs)"

text \<open>\<open>getSegClasses(seg, isDraggable, isResizable, mirrorInfo)\<close>; each \<open>push\<close> appends.\<close>

definition getSegClasses :: "Seg \<Rightarrow> bool \<Rightarrow> bool \<Rightarrow> jsval \<Rightarrow> string list" where
  "getSegClasses seg isDraggable isResizable mirrorInfo =
     ([''fc-event'',
       if isStart seg then ''fc-start'' else ''fc-not-start'',
       if isEnd seg then ''fc-end'' else ''fc-not-end'']
      @ classNames (er_ui (eventRange seg)))
     @ (if isDraggable then [''fc-draggable''] else [])
     @ (if isResizable then [''fc-resizable''] else [])
     @ (if truthy mirrorInfo then
          [''fc-mirror'']
          @ (if truthy (get_prop mirrorInfo ''isDragging'') then [''fc-dragging''] else [])
          @ (if truthy (get_prop mirrorInfo ''isResizing'') then [''fc-resizing''] else [])
        else [])"


section \<open>Selection and hidden instances\<close>

text \<open>\<open>el.classList.add(c)\<close> and \<open>el.classList.remove(c)\<close> on the token list of an element.\<close>

definition classList_add :: "string \<Rightarrow> element \<Rightarrow> element" where
  "classList_add c e = e\<lparr>classList := (if c \<in> set (classList e) then classList e else classList e @ [c])\<rparr>"

definition classList_remove :: "string \<Rightarrow> element \<Rightarrow> element" where
  "classList_remove c e = e\<lparr>classList := removeAll c (classList e)\<rparr>"

text \<open>An optional string is truthy when it is present and not empty.\<close>

fun truthy_str :: "string option \<Rightarrow> bool" where
  "truthy_str None = False"
| "truthy_str (Some s) = (s \<noteq> [])"

text \<open>The body of \<open>for (let seg of segs)\<close> in \<open>renderSelectedInstance\<close>, and the loop.\<close>

definition selectSeg :: "string option \<Rightarrow> Seg \<Rightarrow> Seg" where
  "selectSeg instId seg =
     (case er_instance (eventRange seg) of
        None \<Rightarrow> seg
      | Some eventInstance \<Rightarrow>
          if Some (instanceId eventInstance) = instId then
            (case el seg of
               None \<Rightarrow> seg
             | Some e \<Rightarrow> seg\<lparr>el := Some (classList_add ''fc-selected'' e)\<rparr>)
          else seg)"

fun selectSegs :: "string option \<Rightarrow> Seg list \<Rightarrow> Seg list" where
  "selectSegs instId [] = []"
| "selectSegs instId (seg # rest) = selectSeg instId seg # selectSegs instId rest"

text \<open>\<open>renderSelectedInstance({ segs, instanceId })\<close>; the result is the segments as it leaves them.\<close>

definition renderSelectedInstance :: "Seg list \<Rightarrow> string option \<Rightarrow> Seg list" where
  "renderSelectedInstance sgs instId =
     (if truthy_str instId then selectSegs instId sgs else sgs)"

definition unselectSeg :: "Seg \<Rightarrow> Seg" where
  "unselectSeg seg =
     (case el seg of
        None \<Rightarrow> seg
      | Some e \<Rightarrow> seg\<lparr>el := Some (classList_remove ''fc-selected'' e)\<rparr>)"

fun unselectSegs :: "Seg list \<Rightarrow> Seg list" where
  "unselectSegs [] = []"
| "unselectSegs (seg # rest) = unselectSeg seg # unselectSegs rest"

definition unrenderSelectedInstance :: "Seg list \<Rightarrow> string option \<Rightarrow> Seg list" where
  "unrenderSelectedInstance sgs instId =
     (if truthy_str instId then unselectSegs sgs else sgs)"

text \<open>
  A dictionary object \<open>{ [key: string]: any }\<close>: its own entries, and the properties it
  inherits through its prototype chain (those of \<open>Object.prototype\<close> for an object
  literal, none for an object without prototype).
\<close>

record Dictionary =
  own_props :: "string \<rightharpoonup> jsval"
  inherited_props :: "string \<rightharpoonup> jsval"

text \<open>
  The property read \<open>dictionary[k]\<close>: the own entry, else the inherited property, else
  \<open>undefined\<close>.
\<close>

definition readProp :: "Dictionary \<Rightarrow> string \<Rightarrow> jsval" where
  "readProp d k =
     (case own_props d k of
        Some v \<Rightarrow> v
      | None \<Rightarrow> (case inherited_props d k of Some v \<Rightarrow> v | None \<Rightarrow> JUndefined))"

text \<open>\<open>hiddenInstances[id]\<close> as a condition.\<close>

definition hiddenAt :: "Dictionary \<Rightarrow> string \<Rightarrow> bool" where
  "hiddenAt hidden k = truthy (readProp hidden k)"

text \<open>
  The loop shared by \<open>renderHiddenInstances\<close> (with \<open>'hidden'\<close>) and
  \<open>unrenderHiddenInstances\<close> (with \<open>''\<close>). Neither tests for the instance or the element:
  \<open>instance.instanceId\<close> of a missing instance raises, and so does \<open>el.style\<close> of a
  missing element.
\<close>

fun setVisibilities :: "string \<Rightarrow> Dictionary \<Rightarrow> Seg list \<Rightarrow> error + Seg list" where
  "setVisibilities v hidden [] = Inr []"
| "setVisibilities v hidden (seg # rest) =
     (case er_instance (eventRange seg) of
        None \<Rightarrow> Inl TypeError
      | Some inst \<Rightarrow>
          if hiddenAt hidden (instanceId inst) then
            (case el seg of
               None \<Rightarrow> Inl TypeError
             | Some e \<Rightarrow>
                 (case setVisibilities v hidden rest of
                    Inl err \<Rightarrow> Inl err
                  | Inr rest' \<Rightarrow> Inr (seg\<lparr>el := Some (e\<lparr>visibility := v\<rparr>)\<rparr> # rest')))
          else
            (case setVisibilities v hidden rest of
               Inl err \<Rightarrow> Inl err
             | Inr rest' \<Rightarrow> Inr (seg # rest')))"

definition renderHiddenInstances :: "Seg list \<Rightarrow> Dictionary option \<Rightarrow> error + Seg list" where
  "renderHiddenInstances sgs hiddenInstances =
     (case hiddenInstances of
        None \<Rightarrow> Inr sgs
      | Some hidden \<Rightarrow> setVisibilities ''hidden'' hidden sgs)"

definition unrenderHiddenInstances :: "Seg list \<Rightarrow> Dictionary option \<Rightarrow> error + Seg list" where
  "unrenderHiddenInstances sgs hiddenInstances =
     (case hiddenInstances of
        None \<Rightarrow> Inr sgs
      | Some hidden \<Rightarrow> setVisibilities [] hidden sgs)"


section \<open>Rendering the segments of a view\<close>

record BaseFgEventRendererProps =
  props_segs :: "Seg list"
  props_mirrorInfo :: jsval
  props_selectedInstanceId :: "string option"
  props_hiddenInstances :: "Dictionary option"

text \<open>
  \<open>_renderSegsPlain({ segs, mirrorInfo }, context)\<close>: the rendered segments, \<open>isMirror\<close>,
  and the renderer after \<open>triggerPositionedSegs(context, segs, false)\<close>.
\<close>

definition u_renderSegsPlain ::
  "'f Imports \<Rightarrow> (Seg \<Rightarrow> jsval \<Rightarrow> string) \<Rightarrow> 'f ComponentContext \<Rightarrow> Seg list \<Rightarrow> jsval \<Rightarrow>
   'f FgEventRenderer \<Rightarrow> error + ((Seg list \<times> bool) \<times> 'f FgEventRenderer)" where
  "u_renderSegsPlain imports renderSegHtml ctx sgs mirrorInfo this =
     (let isMirror = truthy mirrorInfo
      in case renderSegEls imports renderSegHtml ctx sgs mirrorInfo of
           Inl err \<Rightarrow> Inl err
         | Inr sgs' \<Rightarrow>
             Inr ((sgs', isMirror),
                  this\<lparr>effects := effects this @ [TriggerPositionedSegs sgs' False]\<rparr>))"

text \<open>
  \<open>renderSegs(props)\<close>, returning the segments and the renderer it leaves. The members
  \<open>renderSegsPlain\<close>, \<open>renderSelectedInstance\<close> and \<open>renderHiddenInstances\<close> are the
  functions of those names behind \<open>subrenderer\<close>; the call is that of a renderer with
  nothing rendered before, where the wrapper runs the render function on the props.
\<close>

definition renderSegs ::
  "'f Imports \<Rightarrow> (Seg \<Rightarrow> jsval \<Rightarrow> string) \<Rightarrow> 'f ComponentContext \<Rightarrow> BaseFgEventRendererProps \<Rightarrow>
   'f FgEventRenderer \<Rightarrow> error + (Seg list \<times> 'f FgEventRenderer)" where
  "renderSegs imports renderSegHtml ctx props this =
     (let this1 = u_updateComputedOptions imports (options ctx) this
      in case u_renderSegsPlain imports renderSegHtml ctx (props_segs props) (props_mirrorInfo props) this1 of
           Inl err \<Rightarrow> Inl err
         | Inr ((sgs, isMirror), this2) \<Rightarrow>
             (let sgs1 = renderSelectedInstance sgs (props_selectedInstanceId props)
              in case renderHiddenInstances sgs1 (props_hiddenInstances props) of
                   Inl err \<Rightarrow> Inl err
                 | Inr sgs2 \<Rightarrow> Inr (sgs2, this2\<lparr>segs := sgs2, isSizeDirty := True\<rparr>)))"


section \<open>Sizing\<close>

text \<open>
  \<open>computeSegSizes\<close> and \<open>assignSegSizes\<close> are the hooks a subclass overrides; their
  bodies are empty here, and a call is recorded in \<open>effects\<close>.
\<close>

definition computeSegSizes :: "Seg list \<Rightarrow> jsval \<Rightarrow> 'f FgEventRenderer \<Rightarrow> 'f FgEventRenderer" where
  "computeSegSizes sgs userComponent this =
     this\<lparr>effects := effects this @ [ComputeSegSizes sgs userComponent]\<rparr>"

definition assignSegSizes :: "Seg list \<Rightarrow> jsval \<Rightarrow> 'f FgEventRenderer \<Rightarrow> 'f FgEventRenderer" where
  "assignSegSizes sgs userComponent this =
     this\<lparr>effects := effects this @ [AssignSegSizes sgs userComponent]\<rparr>"

definition computeSizes :: "bool \<Rightarrow> jsval \<Rightarrow> 'f FgEventRenderer \<Rightarrow> 'f FgEventRenderer" where
  "computeSizes force userComponent this =
     (if force \<or> isSizeDirty this then computeSegSizes (segs this) userComponent this else this)"

definition assignSizes :: "bool \<Rightarrow> jsval \<Rightarrow> 'f FgEventRenderer \<Rightarrow> 'f FgEventRenderer" where
  "assignSizes force userComponent this =
     (let this1 = (if force \<or> isSizeDirty this
                   then assignSegSizes (segs this) userComponent this else this)
      in this1\<lparr>isSizeDirty := False\<rparr>)"


section \<open>Sorting segments\<close>

text \<open>
  A property of a compare object is a plain value or, for \<open>_seg\<close>, the segment itself.
  The object is the dictionary of its properties.
\<close>

datatype cmpval = Val jsval | SegRef Seg

type_synonym cmpobj = "string \<rightharpoonup> cmpval"

text \<open>The own properties of an event definition, as the spread \<open>...eventDef\<close> copies them.\<close>

definition eventDefProps :: "EventDef \<Rightarrow> (string \<rightharpoonup> jsval)" where
  "eventDefProps d =
     (map_of (otherProps d))
       (''publicId'' \<mapsto> JStr (publicId d),
        ''allDay'' \<mapsto> JBool (allDay d),
        ''hasEnd'' \<mapsto> JBool (hasEnd d),
        ''extendedProps'' \<mapsto> JObj (extendedProps d))"

text \<open>\<open>marker ? marker.valueOf() : 0\<close>.\<close>

definition markerValue :: "DateMarker option \<Rightarrow> int" where
  "markerValue m = (case m of Some d \<Rightarrow> d | None \<Rightarrow> 0)"

text \<open>
  \<open>buildSegCompareObj(seg)\<close>. In the object literal a later entry replaces an earlier
  one of the same key. \<open>seg.eventRange.instance.range\<close> raises for a missing instance.
\<close>

definition buildSegCompareObj :: "Seg \<Rightarrow> error + cmpobj" where
  "buildSegCompareObj seg =
     (let eventDef = er_def (eventRange seg)
      in case er_instance (eventRange seg) of
           None \<Rightarrow> Inl TypeError
         | Some inst \<Rightarrow>
             (let rng = instance_range inst;
                  start = markerValue (range_start rng);
                  end_value = markerValue (range_end rng)
              in Inr ((map_option Val \<circ> (map_of (extendedProps eventDef) ++ eventDefProps eventDef))
                        (''id'' \<mapsto> Val (JStr (publicId eventDef)),
                         ''start'' \<mapsto> Val (JNum start),
                         ''end'' \<mapsto> Val (JNum end_value),
                         ''duration'' \<mapsto> Val (JNum (end_value - start)),
                         ''allDay'' \<mapsto> Val (JNum (if allDay eventDef then 1 else 0)),
                         ''_seg'' \<mapsto> SegRef seg))))"

text \<open>\<open>array.map(f)\<close> for an \<open>f\<close> that may raise: the first error ends the call.\<close>

fun mapE :: "('a \<Rightarrow> error + 'b) \<Rightarrow> 'a list \<Rightarrow> error + 'b list" where
  "mapE f [] = Inr []"
| "mapE f (x # xs) =
     (case f x of
        Inl err \<Rightarrow> Inl err
      | Inr y \<Rightarrow> (case mapE f xs of Inl err \<Rightarrow> Inl err | Inr ys \<Rightarrow> Inr (y # ys)))"






section \<open>The common vdom module\<close>

text \<open>The names the module exports, in the order of its \<open>export import\<close> lines.\<close>

definition vdomExportNames :: "string list" where
  "vdomExportNames =
     [''Ref'', ''RefObject'', ''ComponentType'', ''VNode'', ''Context'', ''Component'',
      ''ComponentChild'', ''ComponentChildren'', ''createElement'', ''render'', ''createRef'',
      ''Fragment'', ''createContext'', ''VUIEvent'']"

definition vdomMissingMessage :: string where
  "vdomMissingMessage =
     ''Please import the top-level fullcalendar lib before attempting to import a plugin.''"

text \<open>
  Loading the module. The global \<open>FullCalendarVDom\<close> is \<open>None\<close> when it is not declared
  and a value otherwise; \<open>typeof FullCalendarVDom\<close> is \<open>'undefined'\<close> when it is not
  declared or is \<open>undefined\<close>. Past the guard each \<open>export import X = FullCalendarVDom.X\<close>
  reads a property of the global, which raises for \<open>null\<close>. None of the fourteen names
  is a property that objects inherit, so each read is that of an own property. The
  result is the error thrown or the bindings exported.
\<close>

fun loadVDom :: "jsval option \<Rightarrow> error + (string \<rightharpoonup> jsval)" where
  "loadVDom None = Inl (Error vdomMissingMessage)"
| "loadVDom (Some JUndefined) = Inl (Error vdomMissingMessage)"
| "loadVDom (Some JNull) = Inl TypeError"
| "loadVDom (Some fullCalendarVDom) =
     Inr (\<lambda>name. if name \<in> set vdomExportNames
                   then Some (get_prop fullCalendarVDom name) else None)"


section \<open>Properties stated in the words of the description\<close>

text \<open>The class names that \<open>getSegClasses\<close> adds according to the segment and the flags.\<close>

definition flagClassNames :: "string list" where
  "flagClassNames =
     [''fc-start'', ''fc-not-start'', ''fc-end'', ''fc-not-end'', ''fc-draggable'',
      ''fc-resizable'', ''fc-mirror'', ''fc-dragging'', ''fc-resizing'']"

text \<open>
  A segment is selected by \<open>instId\<close> when its instance exists and has that id, and it has
  an element.
\<close>

definition isSelectedSeg :: "string option \<Rightarrow> Seg \<Rightarrow> bool" where
  "isSelectedSeg instId seg =
     (case er_instance (eventRange seg) of
        None \<Rightarrow> False
      | Some inst \<Rightarrow> Some (instanceId inst) = instId \<and> el seg \<noteq> None)"

text \<open>A segment is hidden by a dictionary when its instance id is a key with a truthy value.\<close>

definition isHiddenSeg :: "Dictionary \<Rightarrow> Seg \<Rightarrow> bool" where
  "isHiddenSeg hidden seg =
     (case er_instance (eventRange seg) of
        None \<Rightarrow> False
      | Some inst \<Rightarrow>
          (case own_props hidden (instanceId inst) of None \<Rightarrow> False | Some v \<Rightarrow> truthy v))"

text \<open>
  A segment reads as hidden when the property read of its instance id from the
  dictionary is truthy, be the property an own key or an inherited one.
\<close>

definition readsHiddenSeg :: "Dictionary \<Rightarrow> Seg \<Rightarrow> bool" where
  "readsHiddenSeg hidden seg =
     (case er_instance (eventRange seg) of
        None \<Rightarrow> False
      | Some inst \<Rightarrow> hiddenAt hidden (instanceId inst))"

text \<open>
  The hidden-instance functions can run over a list when every segment has an instance
  and every segment that reads as hidden has an element.
\<close>

definition hideable :: "Dictionary \<Rightarrow> Seg list \<Rightarrow> bool" where
  "hideable hidden sgs =
     list_all (\<lambda>seg. er_instance (eventRange seg) \<noteq> None \<and>
                     (readsHiddenSeg hidden seg \<longrightarrow> el seg \<noteq> None)) sgs"

text \<open>
  No instance id of the list names a property that the dictionary inherits without
  having it as a key.
\<close>

definition idsAreKeys :: "Dictionary \<Rightarrow> Seg list \<Rightarrow> bool" where
  "idsAreKeys hidden sgs =
     list_all (\<lambda>seg. case er_instance (eventRange seg) of
                       None \<Rightarrow> True
                     | Some inst \<Rightarrow>
                         own_props hidden (instanceId inst) = None
                           \<longrightarrow> inherited_props hidden (instanceId inst) = None) sgs"

text \<open>Updating the element of a segment, where it has one.\<close>

definition onEl :: "(element \<Rightarrow> element) \<Rightarrow> Seg \<Rightarrow> Seg" where
  "onEl f seg = seg\<lparr>el := map_option f (el seg)\<rparr>"






section \<open>Example inputs\<close>

definition exDef :: EventDef where
  "exDef = \<lparr>publicId = ''ev1'', allDay = False, hasEnd = True,
            extendedProps = [(''id'', JStr ''shadow''), (''start'', JNum 99), (''room'', JStr ''A'')],
            otherProps = [(''title'', JStr ''Meeting''), (''duration'', JNull)]\<rparr>"

definition exInstance :: EventInstance where
  "exInstance = \<lparr>instanceId = ''7'',
                 instance_range = \<lparr>range_start = Some 4000, range_end = Some 9000\<rparr>,
                 forcedStartTzo = None, forcedEndTzo = None\<rparr>"

definition exInstance2 :: EventInstance where
  "exInstance2 = \<lparr>instanceId = ''8'',
                  instance_range = \<lparr>range_start = Some 1000, range_end = None\<rparr>,
                  forcedStartTzo = None, forcedEndTzo = None\<rparr>"

definition exEl :: element where
  "exEl = \<lparr>markup = ''<a></a>'', classList = [''fc-event''], visibility = []\<rparr>"

definition exElSelected :: element where
  "exElSelected = \<lparr>markup = ''<a></a>'', classList = [''fc-event'', ''fc-selected''], visibility = []\<rparr>"

definition exSeg :: Seg where
  "exSeg = \<lparr>isStart = True, isEnd = False,
            eventRange = \<lparr>er_def = exDef, er_instance = Some exInstance,
                           er_ui = \<lparr>classNames = [''meeting'']\<rparr>\<rparr>,
            el = Some exEl\<rparr>"

definition exSeg2 :: Seg where
  "exSeg2 = \<lparr>isStart = False, isEnd = True,
             eventRange = \<lparr>er_def = exDef, er_instance = Some exInstance2,
                            er_ui = \<lparr>classNames = [''fc-draggable'']\<rparr>\<rparr>,
             el = Some exElSelected\<rparr>"

definition exSegNoEl :: Seg where
  "exSegNoEl = exSeg\<lparr>el := None\<rparr>"

definition exSegNoInstance :: Seg where
  "exSegNoInstance = exSeg\<lparr>eventRange := (eventRange exSeg)\<lparr>er_instance := None\<rparr>\<rparr>"

definition exDateEnv :: "jsval DateEnv" where
  "exDateEnv = \<lparr>format = (\<lambda>start f tzo. ''4 o clock''),
                formatRange = (\<lambda>start end_marker f tzo1 tzo2. ''4 to 9'')\<rparr>"

definition exOptions :: Options where
  "exOptions = \<lparr>opt_eventTimeFormat = JUndefined, opt_defaultRangeSeparator = JStr '' - '',
                opt_displayEventTime = None, opt_displayEventEnd = Some False\<rparr>"

definition exContext :: "jsval ComponentContext" where
  "exContext = \<lparr>dateEnv = exDateEnv, options = exOptions\<rparr>"

definition exRenderer :: "jsval FgEventRenderer" where
  "exRenderer = \<lparr>segs = [], isSizeDirty = False, eventTimeFormat = None,
                 displayEventTime = False, displayEventEnd = False, effects = []\<rparr>"

text \<open>A renderer that writes one anchor per segment, and one that writes two.\<close>

definition exRenderSegHtml :: "Seg \<Rightarrow> jsval \<Rightarrow> string" where
  "exRenderSegHtml seg mirrorInfo = ''<a></a>''"

definition exRenderSegHtml2 :: "Seg \<Rightarrow> jsval \<Rightarrow> string" where
  "exRenderSegHtml2 seg mirrorInfo = ''<a></a><a></a>''"

text \<open>A parser for these texts: one element for each anchor.\<close>

fun exHtmlToElements :: "string \<Rightarrow> element option list" where
  "exHtmlToElements (c1 # c2 # c3 # c4 # c5 # c6 # c7 # rest) =
     (if [c1, c2, c3, c4, c5, c6, c7] = ''<a></a>''
      then Some \<lparr>markup = ''<a></a>'', classList = [], visibility = []\<rparr> # exHtmlToElements rest
      else [])"
| "exHtmlToElements txt = []"

definition exImports :: "jsval Imports" where
  "exImports = \<lparr>createFormatter = (\<lambda>input separator. input),
                htmlToElements = exHtmlToElements,
                filterSegsViaEls = (\<lambda>ctx sgs isMirror. filter (\<lambda>seg. el seg \<noteq> None) sgs)\<rparr>"

text \<open>
  The properties an object literal inherits from \<open>Object.prototype\<close>; each is a function
  object (the prototype object for \<open>__proto__\<close>), which is truthy.
\<close>

definition exObjectPrototype :: "string \<rightharpoonup> jsval" where
  "exObjectPrototype =
     map_of [(''constructor'', JObj []), (''hasOwnProperty'', JObj []), (''isPrototypeOf'', JObj []),
             (''propertyIsEnumerable'', JObj []), (''toLocaleString'', JObj []),
             (''toString'', JObj []), (''valueOf'', JObj []), (''__proto__'', JObj []),
             (''__defineGetter__'', JObj []), (''__defineSetter__'', JObj []),
             (''__lookupGetter__'', JObj []), (''__lookupSetter__'', JObj [])]"

text \<open>The object literals \<open>{ '8': true }\<close>, \<open>{ '7': true }\<close> and \<open>{}\<close>.\<close>

definition exHidden8 :: Dictionary where
  "exHidden8 = \<lparr>own_props = [''8'' \<mapsto> JBool True], inherited_props = exObjectPrototype\<rparr>"

definition exHidden7 :: Dictionary where
  "exHidden7 = \<lparr>own_props = [''7'' \<mapsto> JBool True], inherited_props = exObjectPrototype\<rparr>"

definition exHiddenNone :: Dictionary where
  "exHiddenNone = \<lparr>own_props = Map.empty, inherited_props = exObjectPrototype\<rparr>"

text \<open>A segment whose instance id is the name of an inherited property.\<close>

definition exSegConstructor :: Seg where
  "exSegConstructor =
     exSeg\<lparr>eventRange := (eventRange exSeg)\<lparr>er_instance := Some (exInstance\<lparr>instanceId := ''constructor''\<rparr>)\<rparr>\<rparr>"

definition exProps :: BaseFgEventRendererProps where
  "exProps = \<lparr>props_segs = [exSegNoEl, exSeg2], props_mirrorInfo = JUndefined,
              props_selectedInstanceId = Some ''7'',
              props_hiddenInstances = Some exHidden8\<rparr>"




text \<open>A namespace object with three members, one of which the module does not export.\<close>

definition exVDom :: jsval where
  "exVDom = JObj [(''render'', JStr ''render function''),
                  (''createElement'', JStr ''createElement function''),
                  (''flushToDom'', JStr ''flushToDom function'')]"



section \<open>Lemmas on iteration\<close>

text \<open>
  The accumulating loop of \<open>renderSegEls\<close> concatenates in input order.
\<close>

lemma concatSegHtml_concat:
  "concatSegHtml r m sgs html = html @ concat (map (\<lambda>seg. r seg m) sgs)"
  by (induction sgs arbitrary: html) simp_all

text \<open>
  The \<open>forEach\<close> loop returns when no element lies beyond the last segment, and then
  entry \<open>j\<close> has received the element of its index; it raises as soon as one does.
\<close>

lemma assignEls_returns:
  "(\<forall>k<length els. length sgs \<le> i + k \<longrightarrow> els ! k = None) \<Longrightarrow>
   \<exists>sgs'. assignEls els i sgs = Inr sgs' \<and> length sgs' = length sgs \<and>
     (\<forall>j<length sgs. sgs' ! j =
        (if i \<le> j \<and> j - i < length els
         then (case els ! (j - i) of Some e \<Rightarrow> (sgs ! j)\<lparr>el := Some e\<rparr> | None \<Rightarrow> sgs ! j)
         else sgs ! j))"
proof (induction els i sgs rule: assignEls.induct)
  case (1 i sgs)
  then show ?case by simp
next
  case (2 els i sgs)
  have "\<forall>k<length els. length sgs \<le> Suc i + k \<longrightarrow> els ! k = None"
    using "2.prems" by (metis Suc_less_eq add_Suc_shift length_Cons nth_Cons_Suc)
  from "2.IH"[OF this] obtain sgs' where
    r: "assignEls els (Suc i) sgs = Inr sgs'" "length sgs' = length sgs"
    and n: "\<forall>j<length sgs. sgs' ! j =
        (if Suc i \<le> j \<and> j - Suc i < length els
         then (case els ! (j - Suc i) of Some e \<Rightarrow> (sgs ! j)\<lparr>el := Some e\<rparr> | None \<Rightarrow> sgs ! j)
         else sgs ! j)" by blast
  have "\<forall>j<length sgs. sgs' ! j =
        (if i \<le> j \<and> j - i < length (None # els)
         then (case (None # els) ! (j - i) of Some e \<Rightarrow> (sgs ! j)\<lparr>el := Some e\<rparr> | None \<Rightarrow> sgs ! j)
         else sgs ! j)"
  proof (intro allI impI)
    fix j assume j: "j < length sgs"
    show "sgs' ! j =
        (if i \<le> j \<and> j - i < length (None # els)
         then (case (None # els) ! (j - i) of Some e \<Rightarrow> (sgs ! j)\<lparr>el := Some e\<rparr> | None \<Rightarrow> sgs ! j)
         else sgs ! j)"
    proof (cases "j \<le> i")
      case True
      then show ?thesis using n j by (cases "j = i") auto
    next
      case False
      then have d: "j - i = Suc (j - Suc i)" by simp
      show ?thesis using n j False d by auto
    qed
  qed
  with r show ?case by simp
next
  case (3 e els i sgs)
  have i: "i < length sgs" using "3.prems" by (auto dest: spec[of _ 0])
  let ?sgs = "sgs[i := (sgs ! i)\<lparr>el := Some e\<rparr>]"
  have "\<forall>k<length els. length ?sgs \<le> Suc i + k \<longrightarrow> els ! k = None"
    using "3.prems" by (metis Suc_less_eq add_Suc_shift length_Cons nth_Cons_Suc length_list_update)
  from "3.IH"[OF i this] obtain sgs' where
    r: "assignEls els (Suc i) ?sgs = Inr sgs'" "length sgs' = length sgs"
    and n: "\<forall>j<length sgs. sgs' ! j =
        (if Suc i \<le> j \<and> j - Suc i < length els
         then (case els ! (j - Suc i) of Some e' \<Rightarrow> (?sgs ! j)\<lparr>el := Some e'\<rparr> | None \<Rightarrow> ?sgs ! j)
         else ?sgs ! j)" by auto
  have "\<forall>j<length sgs. sgs' ! j =
        (if i \<le> j \<and> j - i < length (Some e # els)
         then (case (Some e # els) ! (j - i) of Some e' \<Rightarrow> (sgs ! j)\<lparr>el := Some e'\<rparr> | None \<Rightarrow> sgs ! j)
         else sgs ! j)"
  proof (intro allI impI)
    fix j assume j: "j < length sgs"
    show "sgs' ! j =
        (if i \<le> j \<and> j - i < length (Some e # els)
         then (case (Some e # els) ! (j - i) of Some e' \<Rightarrow> (sgs ! j)\<lparr>el := Some e'\<rparr> | None \<Rightarrow> sgs ! j)
         else sgs ! j)"
    proof (cases "j \<le> i")
      case True
      then show ?thesis using n j by (cases "j = i") auto
    next
      case False
      then have d: "j - i = Suc (j - Suc i)" by simp
      have eq: "?sgs ! j = sgs ! j" using False by simp
      have "sgs' ! j =
        (if Suc i \<le> j \<and> j - Suc i < length els
         then (case els ! (j - Suc i) of Some e' \<Rightarrow> (?sgs ! j)\<lparr>el := Some e'\<rparr> | None \<Rightarrow> ?sgs ! j)
         else ?sgs ! j)" using n j by blast
      then have "sgs' ! j =
        (if Suc i \<le> j \<and> j - Suc i < length els
         then (case els ! (j - Suc i) of Some e' \<Rightarrow> (sgs ! j)\<lparr>el := Some e'\<rparr> | None \<Rightarrow> sgs ! j)
         else sgs ! j)" unfolding eq .
      then show ?thesis using False d by auto
    qed
  qed
  with r i show ?case by simp
qed

lemma assignEls_raises:
  "(\<exists>k<length els. length sgs \<le> i + k \<and> els ! k \<noteq> None) \<Longrightarrow> assignEls els i sgs = Inl TypeError"
proof (induction els i sgs rule: assignEls.induct)
  case (1 i sgs)
  then show ?case by simp
next
  case (2 els i sgs)
  then obtain k where k: "k < length (None # els)" "length sgs \<le> i + k" "(None # els) ! k \<noteq> None" by blast
  then obtain k' where "k = Suc k'" by (cases k) auto
  with k have "\<exists>k<length els. length sgs \<le> Suc i + k \<and> els ! k \<noteq> None" by auto
  from "2.IH"[OF this] show ?case by simp
next
  case (3 e els i sgs)
  show ?case
  proof (cases "i < length sgs")
    case False
    then show ?thesis by simp
  next
    case True
    from "3.prems" obtain k where k: "k < length (Some e # els)" "length sgs \<le> i + k" "(Some e # els) ! k \<noteq> None" by blast
    with True obtain k' where "k = Suc k'" by (cases k) auto
    with k have "\<exists>k<length els. length (sgs[i := (sgs ! i)\<lparr>el := Some e\<rparr>]) \<le> Suc i + k \<and> els ! k \<noteq> None" by auto
    from "3.IH"[OF True this] True show ?thesis by simp
  qed
qed

text \<open>
  Each loop over the segments is a map of its body.
\<close>

lemma selectSegs_map: "selectSegs instId sgs = map (selectSeg instId) sgs"
  by (induction sgs) simp_all

lemma unselectSegs_map: "unselectSegs sgs = map unselectSeg sgs"
  by (induction sgs) simp_all

lemma selectSeg_cases:
  "truthy_str instId \<Longrightarrow>
   selectSeg instId seg =
     (if isSelectedSeg instId seg then onEl (classList_add ''fc-selected'') seg else seg)"
  by (auto simp: selectSeg_def isSelectedSeg_def onEl_def split: option.splits)

lemma unselectSeg_onEl: "unselectSeg seg = onEl (classList_remove ''fc-selected'') seg"
  by (simp add: unselectSeg_def onEl_def split: option.splits)

text \<open>
  The visibility loop is a map on a list it can run over, and raises on any other list.
\<close>

lemma setVisibilities_map:
  "hideable hidden sgs \<Longrightarrow>
   setVisibilities v hidden sgs =
     Inr (map (\<lambda>seg. if readsHiddenSeg hidden seg then onEl (\<lambda>e. e\<lparr>visibility := v\<rparr>) seg else seg) sgs)"
  by (induction sgs) (auto simp: hideable_def readsHiddenSeg_def onEl_def split: option.splits)

lemma setVisibilities_raises:
  "\<not> hideable hidden sgs \<Longrightarrow> setVisibilities v hidden sgs = Inl TypeError"
  by (induction sgs) (auto simp: hideable_def readsHiddenSeg_def split: option.splits sum.splits)

text \<open>Where every instance id is a key or not a property at all, reading is looking up.\<close>

lemma readsHidden_isHidden:
  "idsAreKeys hidden sgs \<Longrightarrow> seg \<in> set sgs \<Longrightarrow>
   readsHiddenSeg hidden seg = isHiddenSeg hidden seg"
  by (auto simp: idsAreKeys_def list_all_iff readsHiddenSeg_def isHiddenSeg_def hiddenAt_def
        readProp_def split: option.splits)

lemma hidden_map_cong:
  "idsAreKeys hidden sgs \<Longrightarrow>
   map (\<lambda>seg. if readsHiddenSeg hidden seg then f seg else seg) sgs =
   map (\<lambda>seg. if isHiddenSeg hidden seg then f seg else seg) sgs"
  by (rule map_cong) (simp_all add: readsHidden_isHidden)


section \<open>Lemmas on sorting\<close>
















lemma mapE_build_raises:
  "\<not> list_all (\<lambda>seg. er_instance (eventRange seg) \<noteq> None) sgs \<Longrightarrow>
   mapE buildSegCompareObj sgs = Inl TypeError"
  by (induction sgs) (auto simp: buildSegCompareObj_def Let_def split: sum.splits option.splits)




section \<open>Evaluations of the examples\<close>

text \<open>
  Rendering the example props: both segments receive an anchor, the first is selected and
  the second hidden.
\<close>

lemma ex_renderSegs:
  "renderSegs exImports exRenderSegHtml exContext exProps exRenderer =
     Inr ([exSegNoEl\<lparr>el := Some (\<lparr>markup = ''<a></a>'', classList = [''fc-selected''], visibility = []\<rparr>)\<rparr>,
           exSeg2\<lparr>el := Some (\<lparr>markup = ''<a></a>'', classList = [], visibility = ''hidden''\<rparr>)\<rparr>],
          \<lparr>segs = [exSegNoEl\<lparr>el := Some (\<lparr>markup = ''<a></a>'', classList = [''fc-selected''], visibility = []\<rparr>)\<rparr>,
                   exSeg2\<lparr>el := Some (\<lparr>markup = ''<a></a>'', classList = [], visibility = ''hidden''\<rparr>)\<rparr>],
           isSizeDirty = True,
           eventTimeFormat = Some computeEventTimeFormat,
           displayEventTime = True, displayEventEnd = False,
           effects = [TriggerPositionedSegs
                        [exSegNoEl\<lparr>el := Some (\<lparr>markup = ''<a></a>'', classList = [], visibility = []\<rparr>)\<rparr>,
                         exSeg2\<lparr>el := Some (\<lparr>markup = ''<a></a>'', classList = [], visibility = []\<rparr>)\<rparr>] False]\<rparr>)"
  by (simp add: renderSegs_def u_renderSegsPlain_def u_updateComputedOptions_def renderSegEls_def
        exImports_def exRenderSegHtml_def exContext_def exProps_def exRenderer_def exOptions_def
        computeDisplayEventTime_def computeDisplayEventEnd_def
        renderSelectedInstance_def selectSeg_def classList_add_def
        renderHiddenInstances_def hiddenAt_def readProp_def exHidden8_def exObjectPrototype_def
        exSegNoEl_def exSeg_def exSeg2_def exInstance_def exInstance2_def Let_def)




section \<open>Time text: when it is blank\<close>

text \<open>
  C1. \<open>_getTimeText\<close> returns a text other than the blank string only when the computed
  flag \<open>displayEventTime\<close> is true and \<open>allDay\<close> is false, whatever start, end,
  formatter and \<open>displayEnd\<close> are; in every other case it returns the blank string. The
  same holds of every text \<open>getTimeText\<close> returns, and \<open>getTimeText\<close> returns the blank
  string in every other case of an event range that has its instance.
\<close>

theorem getTimeText_blank_unless_displayed:
  "(u_getTimeText this ctx start end_marker isAllDay formatter displayEnd fStartTzo fEndTzo \<noteq> []
      \<longrightarrow> displayEventTime this \<and> \<not> isAllDay)
   \<and> (\<not> (displayEventTime this \<and> \<not> isAllDay)
      \<longrightarrow> u_getTimeText this ctx start end_marker isAllDay formatter displayEnd fStartTzo fEndTzo = [])
   \<and> (\<forall>txt. getTimeText this ctx er formatter displayEnd = Inr txt \<longrightarrow> txt \<noteq> []
      \<longrightarrow> displayEventTime this \<and> \<not> allDay (er_def er))
   \<and> (\<forall>inst. er_instance er = Some inst \<longrightarrow> \<not> (displayEventTime this \<and> \<not> allDay (er_def er))
      \<longrightarrow> getTimeText this ctx er formatter displayEnd = Inr [])"
  by (auto simp: u_getTimeText_def getTimeText_def Let_def split: option.splits)

text \<open>
  The example renderer: blank while \<open>displayEventTime\<close> is off, and a text only once it is on.
\<close>

theorem getTimeText_blank_unless_displayed_witness:
  "u_getTimeText exRenderer exContext (Some 4000) (Some 9000) False None None None None = []
   \<and> getTimeText (exRenderer\<lparr>displayEventTime := True\<rparr>) exContext (eventRange exSeg) None None
       = Inr ''4 o clock''
   \<and> displayEventTime (exRenderer\<lparr>displayEventTime := True\<rparr>) \<and> \<not> allDay (er_def (eventRange exSeg))
   \<and> getTimeText exRenderer exContext (eventRange exSeg) None None = Inr []"
proof -
  have shown: "getTimeText (exRenderer\<lparr>displayEventTime := True\<rparr>) exContext (eventRange exSeg) None None
       = Inr ''4 o clock''"
    by (simp add: getTimeText_def u_getTimeText_def exRenderer_def exContext_def exSeg_def exDef_def
        exInstance_def exDateEnv_def)
  have inst: "er_instance (eventRange exSeg) = Some exInstance"
    by (simp add: exSeg_def)
  have off: "\<not> (displayEventTime exRenderer \<and> \<not> allDay (er_def (eventRange exSeg)))"
    by (simp add: exRenderer_def)
  have off': "\<not> (displayEventTime exRenderer \<and> \<not> False)"
    by (simp add: exRenderer_def)
  from getTimeText_blank_unless_displayed
         [of "exRenderer\<lparr>displayEventTime := True\<rparr>" exContext "Some 4000" "Some 9000" False
             None None None None "eventRange exSeg"]
       shown
  have a: "displayEventTime (exRenderer\<lparr>displayEventTime := True\<rparr>) \<and> \<not> allDay (er_def (eventRange exSeg))"
    by simp
  from getTimeText_blank_unless_displayed
         [of exRenderer exContext "Some 4000" "Some 9000" False None None None None "eventRange exSeg"]
       inst off off'
  have b: "u_getTimeText exRenderer exContext (Some 4000) (Some 9000) False None None None None = []
           \<and> getTimeText exRenderer exContext (eventRange exSeg) None None = Inr []"
    by blast
  from a b shown show ?thesis by simp
qed


section \<open>Rendering segment elements: assignment by index\<close>

text \<open>
  C2, as the code has it. For an empty list \<open>renderSegEls\<close> returns the list unchanged,
  whatever the renderer and the parser are. For a non-empty list it concatenates
  \<open>renderSegHtml\<close> of each segment in input order, parses the text into elements, and,
  provided no element lies at an index beyond the last segment, assigns the element of
  index \<open>i\<close> (when there is one) as the \<open>el\<close> of segment \<open>i\<close>, leaves the other segments
  as they are, and returns what \<open>filterSegsViaEls\<close> returns for these segments.
\<close>

theorem renderSegEls_assigns:
  "renderSegEls imports renderSegHtml ctx [] mirrorInfo = Inr []
   \<and> (sgs \<noteq> [] \<longrightarrow>
        (let html = concat (map (\<lambda>seg. renderSegHtml seg mirrorInfo) sgs);
             els = htmlToElements imports html
         in ((\<forall>k<length els. length sgs \<le> k \<longrightarrow> els ! k = None) \<longrightarrow>
               (\<exists>sgs'. length sgs' = length sgs
                  \<and> (\<forall>i<length sgs. sgs' ! i =
                        (if i < length els
                         then (case els ! i of Some e \<Rightarrow> (sgs ! i)\<lparr>el := Some e\<rparr> | None \<Rightarrow> sgs ! i)
                         else sgs ! i))
                  \<and> renderSegEls imports renderSegHtml ctx sgs mirrorInfo =
                      Inr (filterSegsViaEls imports ctx sgs' (truthy mirrorInfo))))))"
proof (intro conjI impI)
  show "renderSegEls imports renderSegHtml ctx [] mirrorInfo = Inr []"
    by (simp add: renderSegEls_def)
next
  assume ne: "sgs \<noteq> []"
  define els where "els = htmlToElements imports (concat (map (\<lambda>seg. renderSegHtml seg mirrorInfo) sgs))"
  have run: "renderSegEls imports renderSegHtml ctx sgs mirrorInfo =
      (case assignEls els 0 sgs of
         Inl err \<Rightarrow> Inl err
       | Inr sgs' \<Rightarrow> Inr (filterSegsViaEls imports ctx sgs' (truthy mirrorInfo)))"
    using ne by (simp add: renderSegEls_def els_def concatSegHtml_concat)
  have ok: "\<exists>sgs'. length sgs' = length sgs
                  \<and> (\<forall>i<length sgs. sgs' ! i =
                        (if i < length els
                         then (case els ! i of Some e \<Rightarrow> (sgs ! i)\<lparr>el := Some e\<rparr> | None \<Rightarrow> sgs ! i)
                         else sgs ! i))
                  \<and> renderSegEls imports renderSegHtml ctx sgs mirrorInfo =
                      Inr (filterSegsViaEls imports ctx sgs' (truthy mirrorInfo))"
    if fits: "\<forall>k<length els. length sgs \<le> k \<longrightarrow> els ! k = None"
  proof -
    from fits have "\<forall>k<length els. length sgs \<le> 0 + k \<longrightarrow> els ! k = None" by simp
    from assignEls_returns [OF this] obtain sgs' where
      r: "assignEls els 0 sgs = Inr sgs'" and l: "length sgs' = length sgs"
      and n: "\<forall>j<length sgs. sgs' ! j =
        (if 0 \<le> j \<and> j - 0 < length els
         then (case els ! (j - 0) of Some e \<Rightarrow> (sgs ! j)\<lparr>el := Some e\<rparr> | None \<Rightarrow> sgs ! j)
         else sgs ! j)" by blast
    from n have n': "\<forall>i<length sgs. sgs' ! i =
        (if i < length els
         then (case els ! i of Some e \<Rightarrow> (sgs ! i)\<lparr>el := Some e\<rparr> | None \<Rightarrow> sgs ! i)
         else sgs ! i)" by simp
    from run r have "renderSegEls imports renderSegHtml ctx sgs mirrorInfo =
                      Inr (filterSegsViaEls imports ctx sgs' (truthy mirrorInfo))" by simp
    with l n' show ?thesis by blast
  qed
  from ok
  show "let html = concat (map (\<lambda>seg. renderSegHtml seg mirrorInfo) sgs);
             els = htmlToElements imports html
         in ((\<forall>k<length els. length sgs \<le> k \<longrightarrow> els ! k = None) \<longrightarrow>
               (\<exists>sgs'. length sgs' = length sgs
                  \<and> (\<forall>i<length sgs. sgs' ! i =
                        (if i < length els
                         then (case els ! i of Some e \<Rightarrow> (sgs ! i)\<lparr>el := Some e\<rparr> | None \<Rightarrow> sgs ! i)
                         else sgs ! i))
                  \<and> renderSegEls imports renderSegHtml ctx sgs mirrorInfo =
                      Inr (filterSegsViaEls imports ctx sgs' (truthy mirrorInfo))))"
    unfolding Let_def els_def [symmetric] by (intro impI)
qed

text \<open>
  Two segments, one anchor each: both receive their element and pass the filter.
\<close>

theorem renderSegEls_assigns_witness:
  "[exSegNoEl, exSeg2] \<noteq> []
   \<and> htmlToElements exImports (concat (map (\<lambda>seg. exRenderSegHtml seg JUndefined) [exSegNoEl, exSeg2]))
       = [Some \<lparr>markup = ''<a></a>'', classList = [], visibility = []\<rparr>,
          Some \<lparr>markup = ''<a></a>'', classList = [], visibility = []\<rparr>]
   \<and> renderSegEls exImports exRenderSegHtml exContext [exSegNoEl, exSeg2] JUndefined =
       Inr [exSegNoEl\<lparr>el := Some \<lparr>markup = ''<a></a>'', classList = [], visibility = []\<rparr>\<rparr>,
            exSeg2\<lparr>el := Some \<lparr>markup = ''<a></a>'', classList = [], visibility = []\<rparr>\<rparr>]"
proof -
  let ?a = "\<lparr>markup = ''<a></a>'', classList = [], visibility = []\<rparr>"
  let ?sgs = "[exSegNoEl, exSeg2]"
  have els: "htmlToElements exImports (concat (map (\<lambda>seg. exRenderSegHtml seg JUndefined) ?sgs))
       = [Some ?a, Some ?a]"
    by (simp add: exImports_def exRenderSegHtml_def)
  have ne: "?sgs \<noteq> []" by simp
  have fits: "\<forall>k<length [Some ?a, Some ?a]. length ?sgs \<le> k \<longrightarrow> [Some ?a, Some ?a] ! k = None"
    by simp
  from renderSegEls_assigns [of exImports exRenderSegHtml exContext JUndefined ?sgs] ne
  have "(\<forall>k<length [Some ?a, Some ?a]. length ?sgs \<le> k \<longrightarrow> [Some ?a, Some ?a] ! k = None) \<longrightarrow>
               (\<exists>sgs'. length sgs' = length ?sgs
                  \<and> (\<forall>i<length ?sgs. sgs' ! i =
                        (if i < length [Some ?a, Some ?a]
                         then (case [Some ?a, Some ?a] ! i of Some e \<Rightarrow> (?sgs ! i)\<lparr>el := Some e\<rparr> | None \<Rightarrow> ?sgs ! i)
                         else ?sgs ! i))
                  \<and> renderSegEls exImports exRenderSegHtml exContext ?sgs JUndefined =
                      Inr (filterSegsViaEls exImports exContext sgs' (truthy JUndefined)))"
    unfolding Let_def els by blast
  with fits obtain sgs' where
    l: "length sgs' = length ?sgs"
    and n: "\<forall>i<length ?sgs. sgs' ! i =
                        (if i < length [Some ?a, Some ?a]
                         then (case [Some ?a, Some ?a] ! i of Some e \<Rightarrow> (?sgs ! i)\<lparr>el := Some e\<rparr> | None \<Rightarrow> ?sgs ! i)
                         else ?sgs ! i)"
    and r: "renderSegEls exImports exRenderSegHtml exContext ?sgs JUndefined =
                      Inr (filterSegsViaEls exImports exContext sgs' (truthy JUndefined))"
    by blast
  from n have "sgs' ! 0 = exSegNoEl\<lparr>el := Some ?a\<rparr>" "sgs' ! Suc 0 = exSeg2\<lparr>el := Some ?a\<rparr>"
    by (auto dest: spec [of _ 0] spec [of _ "Suc 0"])
  with l have "sgs' = [exSegNoEl\<lparr>el := Some ?a\<rparr>, exSeg2\<lparr>el := Some ?a\<rparr>]"
    by (cases sgs'; cases "tl sgs'") auto
  with r have "renderSegEls exImports exRenderSegHtml exContext ?sgs JUndefined =
       Inr [exSegNoEl\<lparr>el := Some ?a\<rparr>, exSeg2\<lparr>el := Some ?a\<rparr>]"
    by (simp add: exImports_def)
  with els ne show ?thesis by blast
qed

text \<open>
  One segment whose markup holds two anchors: the second element has no segment, and
  the call raises instead of returning segments.
\<close>

theorem renderSegEls_extra_element_counterexample:
  "renderSegEls exImports exRenderSegHtml2 exContext [exSeg] JUndefined = Inl TypeError"
  by (simp add: renderSegEls_def exImports_def exRenderSegHtml2_def)


section \<open>Sorting segments: permutation and order\<close>





section \<open>Selection: the class fc-selected\<close>

text \<open>
  C4, as the code has it. With a truthy \<open>instanceId\<close>, \<open>renderSelectedInstance\<close> adds the
  class \<open>fc-selected\<close> to the element of exactly the segments whose instance exists and has
  that id and that have an element, and leaves every other segment as it is; with a falsy
  \<open>instanceId\<close> it changes nothing. With a truthy \<open>instanceId\<close>,
  \<open>unrenderSelectedInstance\<close> removes \<open>fc-selected\<close> from the element of every segment that
  has one; with a falsy \<open>instanceId\<close> it changes nothing either.
\<close>

theorem selected_instance_classes:
  "(truthy_str instId \<longrightarrow>
      renderSelectedInstance sgs instId =
        map (\<lambda>seg. if isSelectedSeg instId seg
                    then onEl (classList_add ''fc-selected'') seg else seg) sgs)
   \<and> (\<not> truthy_str instId \<longrightarrow> renderSelectedInstance sgs instId = sgs)
   \<and> (truthy_str instId \<longrightarrow>
      unrenderSelectedInstance sgs instId = map (onEl (classList_remove ''fc-selected'')) sgs)
   \<and> (\<not> truthy_str instId \<longrightarrow> unrenderSelectedInstance sgs instId = sgs)
   \<and> (\<forall>e. ''fc-selected'' \<in> set (classList (classList_add ''fc-selected'' e))
          \<and> ''fc-selected'' \<notin> set (classList (classList_remove ''fc-selected'' e)))"
  by (simp add: renderSelectedInstance_def unrenderSelectedInstance_def selectSegs_map
        unselectSegs_map selectSeg_cases unselectSeg_onEl classList_add_def classList_remove_def
        cong: map_cong)

text \<open>
  Selecting instance 7 among three segments, an empty id, and unrendering with id 7.
\<close>

theorem selected_instance_classes_witness:
  "truthy_str (Some ''7'') \<and> \<not> truthy_str (Some [])
   \<and> renderSelectedInstance [exSeg, exSeg2, exSegNoEl] (Some ''7'') =
       [exSeg\<lparr>el := Some (exEl\<lparr>classList := [''fc-event'', ''fc-selected'']\<rparr>)\<rparr>, exSeg2, exSegNoEl]
   \<and> renderSelectedInstance [exSeg] (Some []) = [exSeg]
   \<and> unrenderSelectedInstance [exSeg2, exSegNoEl] (Some ''7'') =
       [exSeg2\<lparr>el := Some (exElSelected\<lparr>classList := [''fc-event'']\<rparr>)\<rparr>, exSegNoEl]"
proof -
  have s: "isSelectedSeg (Some ''7'') exSeg" "\<not> isSelectedSeg (Some ''7'') exSeg2"
    "\<not> isSelectedSeg (Some ''7'') exSegNoEl"
    by (simp_all add: isSelectedSeg_def exSeg_def exSeg2_def exSegNoEl_def exInstance_def exInstance2_def)
  have a: "onEl (classList_add ''fc-selected'') exSeg
             = exSeg\<lparr>el := Some (exEl\<lparr>classList := [''fc-event'', ''fc-selected'']\<rparr>)\<rparr>"
    by (simp add: onEl_def classList_add_def exSeg_def exEl_def)
  have b: "onEl (classList_remove ''fc-selected'') exSeg2
             = exSeg2\<lparr>el := Some (exElSelected\<lparr>classList := [''fc-event'']\<rparr>)\<rparr>"
    "onEl (classList_remove ''fc-selected'') exSegNoEl = exSegNoEl"
    by (simp_all add: onEl_def classList_remove_def exSeg2_def exElSelected_def exSegNoEl_def)
  have t: "truthy_str (Some ''7'')" "\<not> truthy_str (Some [])" by simp_all
  from selected_instance_classes [of "Some ''7''" "[exSeg, exSeg2, exSegNoEl]"] t(1)
  have r1: "renderSelectedInstance [exSeg, exSeg2, exSegNoEl] (Some ''7'') =
       [exSeg\<lparr>el := Some (exEl\<lparr>classList := [''fc-event'', ''fc-selected'']\<rparr>)\<rparr>, exSeg2, exSegNoEl]"
    by (simp add: s a)
  from selected_instance_classes [of "Some []" "[exSeg]"] t(2)
  have r2: "renderSelectedInstance [exSeg] (Some []) = [exSeg]"
    by blast
  from selected_instance_classes [of "Some ''7''" "[exSeg2, exSegNoEl]"] t(1)
  have r3: "unrenderSelectedInstance [exSeg2, exSegNoEl] (Some ''7'') =
       [exSeg2\<lparr>el := Some (exElSelected\<lparr>classList := [''fc-event'']\<rparr>)\<rparr>, exSegNoEl]"
    by (simp add: b)
  from t r1 r2 r3 show ?thesis by blast
qed

text \<open>
  Without an \<open>instanceId\<close>, \<open>unrenderSelectedInstance\<close> leaves \<open>fc-selected\<close> on a segment
  that has an element with that class.
\<close>

theorem unrenderSelectedInstance_falsy_counterexample:
  "unrenderSelectedInstance [exSeg2] None = [exSeg2]
   \<and> el exSeg2 = Some exElSelected
   \<and> ''fc-selected'' \<in> set (classList exElSelected)"
  by (simp add: unrenderSelectedInstance_def exSeg2_def exElSelected_def)


section \<open>Hidden instances: visibility\<close>

text \<open>
  C5, as the code has it. For a dictionary \<open>hiddenInstances\<close> and a list in which every
  segment has its instance and every segment that reads as hidden has an element,
  \<open>renderHiddenInstances\<close> sets the visibility to \<open>'hidden'\<close> on exactly the segments for
  which \<open>hiddenInstances[id]\<close> of the instance id is truthy and leaves every other segment
  as it is, and \<open>unrenderHiddenInstances\<close> resets it to \<open>''\<close> on exactly the same segments.
  When moreover no instance id names a property the dictionary only inherits, these are
  exactly the segments whose instance id is a key with a truthy value. Without a
  dictionary neither changes any segment, whatever the list is.
\<close>

theorem hidden_instances_visibility:
  "(hideable hidden sgs \<longrightarrow>
      renderHiddenInstances sgs (Some hidden) =
        Inr (map (\<lambda>seg. if readsHiddenSeg hidden seg
                         then onEl (\<lambda>e. e\<lparr>visibility := ''hidden''\<rparr>) seg else seg) sgs)
    \<and> unrenderHiddenInstances sgs (Some hidden) =
        Inr (map (\<lambda>seg. if readsHiddenSeg hidden seg
                         then onEl (\<lambda>e. e\<lparr>visibility := []\<rparr>) seg else seg) sgs))
   \<and> (hideable hidden sgs \<and> idsAreKeys hidden sgs \<longrightarrow>
      renderHiddenInstances sgs (Some hidden) =
        Inr (map (\<lambda>seg. if isHiddenSeg hidden seg
                         then onEl (\<lambda>e. e\<lparr>visibility := ''hidden''\<rparr>) seg else seg) sgs)
    \<and> unrenderHiddenInstances sgs (Some hidden) =
        Inr (map (\<lambda>seg. if isHiddenSeg hidden seg
                         then onEl (\<lambda>e. e\<lparr>visibility := []\<rparr>) seg else seg) sgs))
   \<and> renderHiddenInstances sgs None = Inr sgs
   \<and> unrenderHiddenInstances sgs None = Inr sgs"
  by (simp add: renderHiddenInstances_def unrenderHiddenInstances_def setVisibilities_map
        hidden_map_cong)

text \<open>
  Hiding instance 8 of two segments with \<open>{ '8': true }\<close> and showing it again; a call
  without dictionary.
\<close>

theorem hidden_instances_visibility_witness:
  "hideable exHidden8 [exSeg, exSeg2] \<and> idsAreKeys exHidden8 [exSeg, exSeg2]
   \<and> renderHiddenInstances [exSeg, exSeg2] (Some exHidden8) =
       Inr [exSeg, exSeg2\<lparr>el := Some (exElSelected\<lparr>visibility := ''hidden''\<rparr>)\<rparr>]
   \<and> unrenderHiddenInstances [exSeg, exSeg2\<lparr>el := Some (exElSelected\<lparr>visibility := ''hidden''\<rparr>)\<rparr>]
         (Some exHidden8) = Inr [exSeg, exSeg2]
   \<and> renderHiddenInstances [exSegNoEl] None = Inr [exSegNoEl]"
proof -
  let ?h = "exHidden8"
  let ?hid = "exSeg2\<lparr>el := Some (exElSelected\<lparr>visibility := ''hidden''\<rparr>)\<rparr>"
  have s: "\<not> isHiddenSeg ?h exSeg" "isHiddenSeg ?h exSeg2" "isHiddenSeg ?h ?hid"
    by (simp_all add: isHiddenSeg_def exHidden8_def exSeg_def exSeg2_def exInstance_def exInstance2_def)
  have k: "idsAreKeys ?h [exSeg, exSeg2]" "idsAreKeys ?h [exSeg, ?hid]"
    by (simp_all add: idsAreKeys_def exHidden8_def exObjectPrototype_def exSeg_def exSeg2_def
          exInstance_def exInstance2_def)
  have rd: "\<not> readsHiddenSeg ?h exSeg" "readsHiddenSeg ?h exSeg2" "readsHiddenSeg ?h ?hid"
    using s readsHidden_isHidden [OF k(1), of exSeg] readsHidden_isHidden [OF k(1), of exSeg2]
      readsHidden_isHidden [OF k(2), of ?hid] by simp_all
  have h1: "hideable ?h [exSeg, exSeg2]" "hideable ?h [exSeg, ?hid]"
    using rd by (simp_all add: hideable_def exSeg_def exSeg2_def)
  have a: "onEl (\<lambda>e. e\<lparr>visibility := ''hidden''\<rparr>) exSeg2 = ?hid"
    "onEl (\<lambda>e. e\<lparr>visibility := []\<rparr>) ?hid = exSeg2"
    by (simp_all add: onEl_def exSeg2_def exElSelected_def)
  from hidden_instances_visibility [of ?h "[exSeg, exSeg2]"] h1(1) k(1)
  have r1: "renderHiddenInstances [exSeg, exSeg2] (Some ?h) = Inr [exSeg, ?hid]"
    by (simp add: s rd a)
  from hidden_instances_visibility [of ?h "[exSeg, ?hid]"] h1(2) k(2)
  have r2: "unrenderHiddenInstances [exSeg, ?hid] (Some ?h) = Inr [exSeg, exSeg2]"
    by (simp add: s rd a)
  from hidden_instances_visibility [of ?h "[exSegNoEl]"]
  have r3: "renderHiddenInstances [exSegNoEl] None = Inr [exSegNoEl]"
    by blast
  from h1(1) k(1) r1 r2 r3 show ?thesis by blast
qed

text \<open>
  With \<open>{ '7': true }\<close>, a segment of instance 7 without element: \<open>renderHiddenInstances\<close>
  raises instead of setting a visibility. With \<open>{}\<close>, a segment whose instance id is
  \<open>constructor\<close>: the id is not a key, yet the read finds the inherited property and the
  segment is hidden.
\<close>

theorem renderHiddenInstances_counterexample:
  "isHiddenSeg exHidden7 exSegNoEl
   \<and> renderHiddenInstances [exSegNoEl] (Some exHidden7) = Inl TypeError
   \<and> \<not> isHiddenSeg exHiddenNone exSegConstructor
   \<and> renderHiddenInstances [exSegConstructor] (Some exHiddenNone) =
       Inr [exSegConstructor\<lparr>el := Some (exEl\<lparr>visibility := ''hidden''\<rparr>)\<rparr>]"
  by (simp add: renderHiddenInstances_def isHiddenSeg_def hiddenAt_def readProp_def
        exHidden7_def exHiddenNone_def exObjectPrototype_def exSegNoEl_def exSegConstructor_def
        exSeg_def exInstance_def)


section \<open>Time text: range or start\<close>

text \<open>
  C6. When the time text is displayed (\<open>displayEventTime\<close> true, not all-day) it is the
  formatted range of start and end exactly when the effective \<open>displayEnd\<close> (the argument,
  or \<open>displayEventEnd\<close> when it is omitted) is true and the end is not null, and the
  formatted start otherwise. \<open>getTimeText\<close> passes null as the end whenever the
  definition's \<open>hasEnd\<close> is false, so such an event never renders a range: its text is
  blank or the formatted start, and does not depend on \<open>formatRange\<close>.
\<close>

theorem getTimeText_range_or_start:
  "(displayEventTime this \<and> \<not> isAllDay \<longrightarrow>
      u_getTimeText this ctx start end_marker isAllDay formatter displayEnd fStartTzo fEndTzo =
        (if (case displayEnd of None \<Rightarrow> displayEventEnd this | Some d \<Rightarrow> d) \<and> end_marker \<noteq> None
         then formatRange (dateEnv ctx) start end_marker
                (case formatter of None \<Rightarrow> eventTimeFormat this | Some f \<Rightarrow> Some f) fStartTzo fEndTzo
         else format (dateEnv ctx) start
                (case formatter of None \<Rightarrow> eventTimeFormat this | Some f \<Rightarrow> Some f) fStartTzo))
   \<and> (\<forall>inst. er_instance er = Some inst \<longrightarrow> \<not> hasEnd (er_def er) \<longrightarrow>
        getTimeText this ctx er formatter displayEnd =
          Inr (u_getTimeText this ctx (range_start (instance_range inst)) None (allDay (er_def er))
                 formatter displayEnd (forcedStartTzo inst) (forcedEndTzo inst))
        \<and> getTimeText this ctx er formatter displayEnd =
          Inr (if displayEventTime this \<and> \<not> allDay (er_def er)
               then format (dateEnv ctx) (range_start (instance_range inst))
                      (case formatter of None \<Rightarrow> eventTimeFormat this | Some f \<Rightarrow> Some f)
                      (forcedStartTzo inst)
               else []))
   \<and> (\<not> hasEnd (er_def er) \<longrightarrow>
        (\<forall>g. getTimeText this (ctx\<lparr>dateEnv := (dateEnv ctx)\<lparr>formatRange := g\<rparr>\<rparr>) er formatter displayEnd
              = getTimeText this ctx er formatter displayEnd))"
  by (auto simp: u_getTimeText_def getTimeText_def Let_def split: option.splits)

text \<open>
  The example renderer with the time displayed: a range with \<open>displayEnd\<close>, the start
  without it, and the start for a definition without an end.
\<close>

theorem getTimeText_range_or_start_witness:
  "u_getTimeText (exRenderer\<lparr>displayEventTime := True\<rparr>) exContext (Some 4000) (Some 9000) False
      None (Some True) None None = ''4 to 9''
   \<and> u_getTimeText (exRenderer\<lparr>displayEventTime := True\<rparr>) exContext (Some 4000) (Some 9000) False
      None None None None = ''4 o clock''
   \<and> getTimeText (exRenderer\<lparr>displayEventTime := True\<rparr>) exContext
        ((eventRange exSeg)\<lparr>er_def := exDef\<lparr>hasEnd := False\<rparr>\<rparr>) None (Some True) = Inr ''4 o clock''"
proof -
  let ?r = "exRenderer\<lparr>displayEventTime := True\<rparr>"
  let ?er = "(eventRange exSeg)\<lparr>er_def := exDef\<lparr>hasEnd := False\<rparr>\<rparr>"
  have d: "displayEventTime ?r \<and> \<not> False" by simp
  have i: "er_instance ?er = Some exInstance" "\<not> hasEnd (er_def ?er)"
    by (simp_all add: exSeg_def)
  from getTimeText_range_or_start
         [of ?r False exContext "Some 4000" "Some 9000" None "Some True" None None ?er] d
  have a: "u_getTimeText ?r exContext (Some 4000) (Some 9000) False None (Some True) None None = ''4 to 9''"
    by (simp add: exContext_def exDateEnv_def)
  from getTimeText_range_or_start
         [of ?r False exContext "Some 4000" "Some 9000" None None None None ?er] d
  have b: "u_getTimeText ?r exContext (Some 4000) (Some 9000) False None None None None = ''4 o clock''"
    by (simp add: exContext_def exDateEnv_def exRenderer_def)
  from getTimeText_range_or_start
         [of ?r False exContext "Some 4000" "Some 9000" None "Some True" None None ?er] i
  have "getTimeText ?r exContext ?er None (Some True) =
          Inr (if displayEventTime ?r \<and> \<not> allDay (er_def ?er)
               then format (dateEnv exContext) (range_start (instance_range exInstance))
                      (case None of None \<Rightarrow> eventTimeFormat ?r | Some f \<Rightarrow> Some f)
                      (forcedStartTzo exInstance)
               else [])"
    by blast
  then have c: "getTimeText ?r exContext ?er None (Some True) = Inr ''4 o clock''"
    by (simp add: exContext_def exDateEnv_def exDef_def)
  from a b c show ?thesis by simp
qed


section \<open>The guard of the vdom module\<close>

text \<open>
  C7, as the code has it. Loading the common vdom module throws an \<open>Error\<close> exactly when
  the global \<open>FullCalendarVDom\<close> is undefined (not declared, or \<open>undefined\<close>), and the error
  carries the message that asks to import the top-level fullcalendar lib before a plugin.
  When the global is defined and not \<open>null\<close>, the load completes without error and
  exports, under each of the fourteen names of the module, the binding of that name in
  \<open>FullCalendarVDom\<close>, and nothing else.
\<close>

theorem loadVDom_guard:
  "((\<exists>msg. loadVDom g = Inl (Error msg)) \<longleftrightarrow> g = None \<or> g = Some JUndefined)
   \<and> (g = None \<or> g = Some JUndefined \<longrightarrow>
        loadVDom g =
          Inl (Error ''Please import the top-level fullcalendar lib before attempting to import a plugin.''))
   \<and> (\<forall>ns. g = Some ns \<longrightarrow> ns \<noteq> JUndefined \<longrightarrow> ns \<noteq> JNull \<longrightarrow>
        (\<exists>exports. loadVDom g = Inr exports
           \<and> exports ''Ref'' = Some (get_prop ns ''Ref'')
           \<and> exports ''RefObject'' = Some (get_prop ns ''RefObject'')
           \<and> exports ''ComponentType'' = Some (get_prop ns ''ComponentType'')
           \<and> exports ''VNode'' = Some (get_prop ns ''VNode'')
           \<and> exports ''Context'' = Some (get_prop ns ''Context'')
           \<and> exports ''Component'' = Some (get_prop ns ''Component'')
           \<and> exports ''ComponentChild'' = Some (get_prop ns ''ComponentChild'')
           \<and> exports ''ComponentChildren'' = Some (get_prop ns ''ComponentChildren'')
           \<and> exports ''createElement'' = Some (get_prop ns ''createElement'')
           \<and> exports ''render'' = Some (get_prop ns ''render'')
           \<and> exports ''createRef'' = Some (get_prop ns ''createRef'')
           \<and> exports ''Fragment'' = Some (get_prop ns ''Fragment'')
           \<and> exports ''createContext'' = Some (get_prop ns ''createContext'')
           \<and> exports ''VUIEvent'' = Some (get_prop ns ''VUIEvent'')
           \<and> dom exports =
               {''Ref'', ''RefObject'', ''ComponentType'', ''VNode'', ''Context'', ''Component'',
                ''ComponentChild'', ''ComponentChildren'', ''createElement'', ''render'',
                ''createRef'', ''Fragment'', ''createContext'', ''VUIEvent''}))"
proof (intro conjI allI impI)
  show "(\<exists>msg. loadVDom g = Inl (Error msg)) \<longleftrightarrow> g = None \<or> g = Some JUndefined"
    by (cases g rule: loadVDom.cases) simp_all
next
  assume "g = None \<or> g = Some JUndefined"
  then show "loadVDom g =
          Inl (Error ''Please import the top-level fullcalendar lib before attempting to import a plugin.'')"
    by (auto simp: vdomMissingMessage_def)
next
  fix ns
  assume g: "g = Some ns" and u: "ns \<noteq> JUndefined" and n: "ns \<noteq> JNull"
  let ?ex = "\<lambda>name. if name \<in> set vdomExportNames then Some (get_prop ns name) else None"
  have l: "loadVDom g = Inr ?ex"
    using u n unfolding g by (cases ns) auto
  have d: "dom ?ex = set vdomExportNames"
    by (auto split: if_splits)
  have m: "''Ref'' \<in> set vdomExportNames" "''RefObject'' \<in> set vdomExportNames"
    "''ComponentType'' \<in> set vdomExportNames" "''VNode'' \<in> set vdomExportNames"
    "''Context'' \<in> set vdomExportNames" "''Component'' \<in> set vdomExportNames"
    "''ComponentChild'' \<in> set vdomExportNames" "''ComponentChildren'' \<in> set vdomExportNames"
    "''createElement'' \<in> set vdomExportNames" "''render'' \<in> set vdomExportNames"
    "''createRef'' \<in> set vdomExportNames" "''Fragment'' \<in> set vdomExportNames"
    "''createContext'' \<in> set vdomExportNames" "''VUIEvent'' \<in> set vdomExportNames"
    by (simp_all add: vdomExportNames_def)
  have s: "set vdomExportNames =
               {''Ref'', ''RefObject'', ''ComponentType'', ''VNode'', ''Context'', ''Component'',
                ''ComponentChild'', ''ComponentChildren'', ''createElement'', ''render'',
                ''createRef'', ''Fragment'', ''createContext'', ''VUIEvent''}"
    by (simp add: vdomExportNames_def)
  have d': "dom ?ex =
               {''Ref'', ''RefObject'', ''ComponentType'', ''VNode'', ''Context'', ''Component'',
                ''ComponentChild'', ''ComponentChildren'', ''createElement'', ''render'',
                ''createRef'', ''Fragment'', ''createContext'', ''VUIEvent''}"
    unfolding s [symmetric] by (rule d)
  have e: "\<And>name. name \<in> set vdomExportNames \<Longrightarrow> ?ex name = Some (get_prop ns name)"
    by simp
  show "\<exists>exports. loadVDom g = Inr exports
           \<and> exports ''Ref'' = Some (get_prop ns ''Ref'')
           \<and> exports ''RefObject'' = Some (get_prop ns ''RefObject'')
           \<and> exports ''ComponentType'' = Some (get_prop ns ''ComponentType'')
           \<and> exports ''VNode'' = Some (get_prop ns ''VNode'')
           \<and> exports ''Context'' = Some (get_prop ns ''Context'')
           \<and> exports ''Component'' = Some (get_prop ns ''Component'')
           \<and> exports ''ComponentChild'' = Some (get_prop ns ''ComponentChild'')
           \<and> exports ''ComponentChildren'' = Some (get_prop ns ''ComponentChildren'')
           \<and> exports ''createElement'' = Some (get_prop ns ''createElement'')
           \<and> exports ''render'' = Some (get_prop ns ''render'')
           \<and> exports ''createRef'' = Some (get_prop ns ''createRef'')
           \<and> exports ''Fragment'' = Some (get_prop ns ''Fragment'')
           \<and> exports ''createContext'' = Some (get_prop ns ''createContext'')
           \<and> exports ''VUIEvent'' = Some (get_prop ns ''VUIEvent'')
           \<and> dom exports =
               {''Ref'', ''RefObject'', ''ComponentType'', ''VNode'', ''Context'', ''Component'',
                ''ComponentChild'', ''ComponentChildren'', ''createElement'', ''render'',
                ''createRef'', ''Fragment'', ''createContext'', ''VUIEvent''}"
    by (rule exI [of _ ?ex])
       (intro conjI l d' e [OF m(1)] e [OF m(2)] e [OF m(3)] e [OF m(4)] e [OF m(5)] e [OF m(6)]
          e [OF m(7)] e [OF m(8)] e [OF m(9)] e [OF m(10)] e [OF m(11)] e [OF m(12)]
          e [OF m(13)] e [OF m(14)])
qed

text \<open>
  Loading without the global and with an undefined one, and with a namespace object of
  three members: \<open>render\<close> is exported with its binding, \<open>Fragment\<close> with \<open>undefined\<close>, and
  \<open>flushToDom\<close> not at all.
\<close>

theorem loadVDom_guard_witness:
  "loadVDom None =
     Inl (Error ''Please import the top-level fullcalendar lib before attempting to import a plugin.'')
   \<and> loadVDom (Some JUndefined) =
     Inl (Error ''Please import the top-level fullcalendar lib before attempting to import a plugin.'')
   \<and> exVDom \<noteq> JUndefined \<and> exVDom \<noteq> JNull
   \<and> (\<exists>exports. loadVDom (Some exVDom) = Inr exports
         \<and> exports ''render'' = Some (JStr ''render function'')
         \<and> exports ''Fragment'' = Some JUndefined
         \<and> exports ''flushToDom'' = None)"
proof -
  have a: "loadVDom None =
     Inl (Error ''Please import the top-level fullcalendar lib before attempting to import a plugin.'')"
    by (rule loadVDom_guard [of None, THEN conjunct2, THEN conjunct1, rule_format]) simp
  have b: "loadVDom (Some JUndefined) =
     Inl (Error ''Please import the top-level fullcalendar lib before attempting to import a plugin.'')"
    by (rule loadVDom_guard [of "Some JUndefined", THEN conjunct2, THEN conjunct1, rule_format]) simp
  have v: "exVDom \<noteq> JUndefined" "exVDom \<noteq> JNull"
    by (simp_all add: exVDom_def)
  note t = loadVDom_guard [of "Some exVDom", THEN conjunct2, THEN conjunct2, rule_format,
                           OF refl v(1) v(2)]
  from t obtain exports where
    e: "loadVDom (Some exVDom) = Inr exports
       \<and> exports ''Ref'' = Some (get_prop exVDom ''Ref'')
       \<and> exports ''RefObject'' = Some (get_prop exVDom ''RefObject'')
       \<and> exports ''ComponentType'' = Some (get_prop exVDom ''ComponentType'')
       \<and> exports ''VNode'' = Some (get_prop exVDom ''VNode'')
       \<and> exports ''Context'' = Some (get_prop exVDom ''Context'')
       \<and> exports ''Component'' = Some (get_prop exVDom ''Component'')
       \<and> exports ''ComponentChild'' = Some (get_prop exVDom ''ComponentChild'')
       \<and> exports ''ComponentChildren'' = Some (get_prop exVDom ''ComponentChildren'')
       \<and> exports ''createElement'' = Some (get_prop exVDom ''createElement'')
       \<and> exports ''render'' = Some (get_prop exVDom ''render'')
       \<and> exports ''createRef'' = Some (get_prop exVDom ''createRef'')
       \<and> exports ''Fragment'' = Some (get_prop exVDom ''Fragment'')
       \<and> exports ''createContext'' = Some (get_prop exVDom ''createContext'')
       \<and> exports ''VUIEvent'' = Some (get_prop exVDom ''VUIEvent'')
       \<and> dom exports =
               {''Ref'', ''RefObject'', ''ComponentType'', ''VNode'', ''Context'', ''Component'',
                ''ComponentChild'', ''ComponentChildren'', ''createElement'', ''render'',
                ''createRef'', ''Fragment'', ''createContext'', ''VUIEvent''}" ..
  have l: "loadVDom (Some exVDom) = Inr exports"
    using e by (rule conjunct1)
  have r: "exports ''render'' = Some (get_prop exVDom ''render'')"
    "exports ''Fragment'' = Some (get_prop exVDom ''Fragment'')"
    using e by simp_all
  have d: "dom exports =
               {''Ref'', ''RefObject'', ''ComponentType'', ''VNode'', ''Context'', ''Component'',
                ''ComponentChild'', ''ComponentChildren'', ''createElement'', ''render'',
                ''createRef'', ''Fragment'', ''createContext'', ''VUIEvent''}"
    using e by simp
  have "''flushToDom'' \<notin> dom exports"
    unfolding d by simp
  then have f: "exports ''flushToDom'' = None"
    by (simp add: domIff)
  have g: "exports ''render'' = Some (JStr ''render function'')" "exports ''Fragment'' = Some JUndefined"
    using r by (simp_all add: exVDom_def)
  show ?thesis
    apply (intro conjI a b v)
    apply (rule exI [of _ exports])
    apply (intro conjI l g f)
    done
qed

text \<open>
  A global that is \<open>null\<close> is defined, so the guard lets it pass, and the first read of a
  property of it raises: the load does not complete.
\<close>

theorem loadVDom_null_counterexample:
  "loadVDom (Some JNull) = Inl TypeError"
  by simp


section \<open>Class names of a segment\<close>

text \<open>
  C8, as the code has it. \<open>getSegClasses\<close> returns \<open>fc-event\<close>, the start class and the
  end class, then the class names of the event's ui, then \<open>fc-draggable\<close>, \<open>fc-resizable\<close>,
  \<open>fc-mirror\<close>, \<open>fc-dragging\<close> and \<open>fc-resizing\<close> for the flags that are set. So it always
  contains \<open>fc-event\<close>, the start and end class of the segment, and the class of every flag
  that is set. When the ui class names hold none of the nine flag classes, it contains
  exactly one of \<open>fc-start\<close> and \<open>fc-not-start\<close> according to \<open>isStart\<close>, exactly one of
  \<open>fc-end\<close> and \<open>fc-not-end\<close> according to \<open>isEnd\<close>, \<open>fc-draggable\<close> iff \<open>isDraggable\<close>,
  \<open>fc-resizable\<close> iff \<open>isResizable\<close>, \<open>fc-mirror\<close> iff \<open>mirrorInfo\<close> is truthy, and
  \<open>fc-dragging\<close> and \<open>fc-resizing\<close> iff moreover the flag of \<open>mirrorInfo\<close> is truthy.
\<close>

theorem getSegClasses_contents:
  "getSegClasses seg isDraggable isResizable mirrorInfo =
     [''fc-event'',
      if isStart seg then ''fc-start'' else ''fc-not-start'',
      if isEnd seg then ''fc-end'' else ''fc-not-end'']
     @ classNames (er_ui (eventRange seg))
     @ (if isDraggable then [''fc-draggable''] else [])
     @ (if isResizable then [''fc-resizable''] else [])
     @ (if truthy mirrorInfo then [''fc-mirror''] else [])
     @ (if truthy mirrorInfo \<and> truthy (get_prop mirrorInfo ''isDragging'') then [''fc-dragging''] else [])
     @ (if truthy mirrorInfo \<and> truthy (get_prop mirrorInfo ''isResizing'') then [''fc-resizing''] else [])
   \<and> (''fc-event'' \<in> set (getSegClasses seg isDraggable isResizable mirrorInfo)
      \<and> (if isStart seg then ''fc-start'' else ''fc-not-start'')
            \<in> set (getSegClasses seg isDraggable isResizable mirrorInfo)
      \<and> (if isEnd seg then ''fc-end'' else ''fc-not-end'')
            \<in> set (getSegClasses seg isDraggable isResizable mirrorInfo)
      \<and> (isDraggable \<longrightarrow> ''fc-draggable'' \<in> set (getSegClasses seg isDraggable isResizable mirrorInfo))
      \<and> (isResizable \<longrightarrow> ''fc-resizable'' \<in> set (getSegClasses seg isDraggable isResizable mirrorInfo))
      \<and> (truthy mirrorInfo \<longrightarrow> ''fc-mirror'' \<in> set (getSegClasses seg isDraggable isResizable mirrorInfo)))
   \<and> (set (classNames (er_ui (eventRange seg))) \<inter> set flagClassNames = {} \<longrightarrow>
        (''fc-start'' \<in> set (getSegClasses seg isDraggable isResizable mirrorInfo) \<longleftrightarrow> isStart seg)
      \<and> (''fc-not-start'' \<in> set (getSegClasses seg isDraggable isResizable mirrorInfo) \<longleftrightarrow> \<not> isStart seg)
      \<and> (''fc-end'' \<in> set (getSegClasses seg isDraggable isResizable mirrorInfo) \<longleftrightarrow> isEnd seg)
      \<and> (''fc-not-end'' \<in> set (getSegClasses seg isDraggable isResizable mirrorInfo) \<longleftrightarrow> \<not> isEnd seg)
      \<and> (''fc-draggable'' \<in> set (getSegClasses seg isDraggable isResizable mirrorInfo) \<longleftrightarrow> isDraggable)
      \<and> (''fc-resizable'' \<in> set (getSegClasses seg isDraggable isResizable mirrorInfo) \<longleftrightarrow> isResizable)
      \<and> (''fc-mirror'' \<in> set (getSegClasses seg isDraggable isResizable mirrorInfo) \<longleftrightarrow> truthy mirrorInfo)
      \<and> (''fc-dragging'' \<in> set (getSegClasses seg isDraggable isResizable mirrorInfo)
            \<longleftrightarrow> truthy mirrorInfo \<and> truthy (get_prop mirrorInfo ''isDragging''))
      \<and> (''fc-resizing'' \<in> set (getSegClasses seg isDraggable isResizable mirrorInfo)
            \<longleftrightarrow> truthy mirrorInfo \<and> truthy (get_prop mirrorInfo ''isResizing'')))"
proof -
  let ?cs = "getSegClasses seg isDraggable isResizable mirrorInfo"
  let ?ui = "classNames (er_ui (eventRange seg))"
  have shape: "?cs =
     [''fc-event'',
      if isStart seg then ''fc-start'' else ''fc-not-start'',
      if isEnd seg then ''fc-end'' else ''fc-not-end'']
     @ ?ui
     @ (if isDraggable then [''fc-draggable''] else [])
     @ (if isResizable then [''fc-resizable''] else [])
     @ (if truthy mirrorInfo then [''fc-mirror''] else [])
     @ (if truthy mirrorInfo \<and> truthy (get_prop mirrorInfo ''isDragging'') then [''fc-dragging''] else [])
     @ (if truthy mirrorInfo \<and> truthy (get_prop mirrorInfo ''isResizing'') then [''fc-resizing''] else [])"
    by (simp add: getSegClasses_def)
  have iffs: "(''fc-start'' \<in> set ?cs \<longleftrightarrow> isStart seg)
      \<and> (''fc-not-start'' \<in> set ?cs \<longleftrightarrow> \<not> isStart seg)
      \<and> (''fc-end'' \<in> set ?cs \<longleftrightarrow> isEnd seg)
      \<and> (''fc-not-end'' \<in> set ?cs \<longleftrightarrow> \<not> isEnd seg)
      \<and> (''fc-draggable'' \<in> set ?cs \<longleftrightarrow> isDraggable)
      \<and> (''fc-resizable'' \<in> set ?cs \<longleftrightarrow> isResizable)
      \<and> (''fc-mirror'' \<in> set ?cs \<longleftrightarrow> truthy mirrorInfo)
      \<and> (''fc-dragging'' \<in> set ?cs \<longleftrightarrow> truthy mirrorInfo \<and> truthy (get_prop mirrorInfo ''isDragging''))
      \<and> (''fc-resizing'' \<in> set ?cs \<longleftrightarrow> truthy mirrorInfo \<and> truthy (get_prop mirrorInfo ''isResizing''))"
    if disj: "set ?ui \<inter> set flagClassNames = {}"
  proof -
    have n: "''fc-start'' \<notin> set ?ui" "''fc-not-start'' \<notin> set ?ui" "''fc-end'' \<notin> set ?ui"
      "''fc-not-end'' \<notin> set ?ui" "''fc-draggable'' \<notin> set ?ui" "''fc-resizable'' \<notin> set ?ui"
      "''fc-mirror'' \<notin> set ?ui" "''fc-dragging'' \<notin> set ?ui" "''fc-resizing'' \<notin> set ?ui"
      using disj by (auto simp: flagClassNames_def)
    show ?thesis
      unfolding shape using n by simp
  qed
  have mem: "''fc-event'' \<in> set ?cs
      \<and> (if isStart seg then ''fc-start'' else ''fc-not-start'') \<in> set ?cs
      \<and> (if isEnd seg then ''fc-end'' else ''fc-not-end'') \<in> set ?cs
      \<and> (isDraggable \<longrightarrow> ''fc-draggable'' \<in> set ?cs)
      \<and> (isResizable \<longrightarrow> ''fc-resizable'' \<in> set ?cs)
      \<and> (truthy mirrorInfo \<longrightarrow> ''fc-mirror'' \<in> set ?cs)"
    unfolding shape by simp
  from shape mem iffs show ?thesis by blast
qed

text \<open>
  A draggable start segment under a dragging mirror.
\<close>

theorem getSegClasses_contents_witness:
  "set (classNames (er_ui (eventRange exSeg))) \<inter> set flagClassNames = {}
   \<and> getSegClasses exSeg True False (JObj [(''isDragging'', JBool True)]) =
       [''fc-event'', ''fc-start'', ''fc-not-end'', ''meeting'', ''fc-draggable'', ''fc-mirror'', ''fc-dragging'']
   \<and> ''fc-draggable'' \<in> set (getSegClasses exSeg True False (JObj [(''isDragging'', JBool True)]))
   \<and> ''fc-resizable'' \<notin> set (getSegClasses exSeg True False (JObj [(''isDragging'', JBool True)]))
   \<and> ''fc-resizing'' \<notin> set (getSegClasses exSeg True False (JObj [(''isDragging'', JBool True)]))"
proof -
  have d: "set (classNames (er_ui (eventRange exSeg))) \<inter> set flagClassNames = {}"
    by (simp add: exSeg_def flagClassNames_def)
  note t = getSegClasses_contents [of exSeg True False "JObj [(''isDragging'', JBool True)]"]
  from t have l: "getSegClasses exSeg True False (JObj [(''isDragging'', JBool True)]) =
       [''fc-event'', ''fc-start'', ''fc-not-end'', ''meeting'', ''fc-draggable'', ''fc-mirror'', ''fc-dragging'']"
    by (simp add: exSeg_def)
  have m: "truthy (get_prop (JObj [(''isDragging'', JBool True)]) ''isResizing'') = False"
    by simp
  from t [THEN conjunct2, THEN conjunct2, rule_format, OF d]
  have "''fc-draggable'' \<in> set (getSegClasses exSeg True False (JObj [(''isDragging'', JBool True)]))"
    "''fc-resizable'' \<notin> set (getSegClasses exSeg True False (JObj [(''isDragging'', JBool True)]))"
    "''fc-resizing'' \<notin> set (getSegClasses exSeg True False (JObj [(''isDragging'', JBool True)]))"
    unfolding m by blast+
  with d l show ?thesis by blast
qed

text \<open>
  A segment whose ui class names hold \<open>fc-draggable\<close>: the class is in the list although
  \<open>isDraggable\<close> is false.
\<close>

theorem getSegClasses_reserved_counterexample:
  "''fc-draggable'' \<in> set (getSegClasses exSeg2 False False JUndefined)"
  by (simp add: getSegClasses_def exSeg2_def)


section \<open>The size-dirty flag\<close>

text \<open>
  C9. Whenever \<open>renderSegs\<close> returns, \<open>isSizeDirty\<close> is true (and \<open>segs\<close> holds the
  segments returned). \<open>computeSizes\<close> calls \<open>computeSegSizes\<close>, once and with the stored
  segments, iff \<open>force\<close> or \<open>isSizeDirty\<close> is true, and never changes \<open>isSizeDirty\<close>.
  \<open>assignSizes\<close> calls \<open>assignSegSizes\<close> iff \<open>force\<close> or \<open>isSizeDirty\<close> is true, and after
  it \<open>isSizeDirty\<close> is false whatever \<open>force\<close> is.
\<close>

theorem size_dirty_flag:
  "(\<forall>sgs this'. renderSegs imports renderSegHtml ctx props this = Inr (sgs, this')
       \<longrightarrow> isSizeDirty this' \<and> segs this' = sgs)
   \<and> isSizeDirty (computeSizes force userComponent this) = isSizeDirty this
   \<and> effects (computeSizes force userComponent this) =
       effects this @ (if force \<or> isSizeDirty this
                       then [ComputeSegSizes (segs this) userComponent] else [])
   \<and> effects (assignSizes force userComponent this) =
       effects this @ (if force \<or> isSizeDirty this
                       then [AssignSegSizes (segs this) userComponent] else [])
   \<and> \<not> isSizeDirty (assignSizes force userComponent this)"
  by (auto simp: renderSegs_def u_renderSegsPlain_def computeSizes_def computeSegSizes_def
        assignSizes_def assignSegSizes_def Let_def split: sum.splits)

text \<open>
  The example render sets the flag; without force \<open>computeSizes\<close> then calls its hook and
  keeps the flag, \<open>assignSizes\<close> clears it, and a further \<open>computeSizes\<close> calls nothing.
\<close>

theorem size_dirty_flag_witness:
  "\<exists>sgs this'. renderSegs exImports exRenderSegHtml exContext exProps exRenderer = Inr (sgs, this')
      \<and> \<not> isSizeDirty exRenderer
      \<and> isSizeDirty this' \<and> segs this' = sgs
      \<and> effects (computeSizes False JNull this') = effects this' @ [ComputeSegSizes sgs JNull]
      \<and> isSizeDirty (computeSizes False JNull this')
      \<and> \<not> isSizeDirty (assignSizes False JNull this')
      \<and> effects (computeSizes False JNull (assignSizes False JNull this'))
            = effects (assignSizes False JNull this')"
proof -
  from ex_renderSegs obtain sgs this' where
    r: "renderSegs exImports exRenderSegHtml exContext exProps exRenderer = Inr (sgs, this')"
    by blast
  note t = size_dirty_flag [of exImports exRenderSegHtml exContext exProps exRenderer False JNull]
  from t r have d: "isSizeDirty this'" "segs this' = sgs" by blast+
  note u = size_dirty_flag [of exImports exRenderSegHtml exContext exProps this' False JNull]
  from u d have c: "effects (computeSizes False JNull this') = effects this' @ [ComputeSegSizes sgs JNull]"
    "isSizeDirty (computeSizes False JNull this')" "\<not> isSizeDirty (assignSizes False JNull this')"
    by simp_all
  note v = size_dirty_flag [of exImports exRenderSegHtml exContext exProps
                               "assignSizes False JNull this'" False JNull]
  from v c(3) have e: "effects (computeSizes False JNull (assignSizes False JNull this'))
            = effects (assignSizes False JNull this')" by simp
  have "\<not> isSizeDirty exRenderer" by (simp add: exRenderer_def)
  with r d c e show ?thesis by blast
qed


section \<open>Compare objects\<close>

text \<open>
  C10, as the code has it. For a segment that has its instance, \<open>buildSegCompareObj\<close>
  returns an object whose \<open>start\<close> and \<open>end\<close> are the millisecond values of the endpoints
  of the instance range, 0 for a missing endpoint, whose \<open>duration\<close> is end minus start,
  whose \<open>allDay\<close> is 1 or 0 according to the definition's flag, whose \<open>id\<close> is the
  definition's \<open>publicId\<close> and whose \<open>_seg\<close> is the segment itself, whatever the spread
  properties are.
\<close>

theorem buildSegCompareObj_fields:
  "\<forall>inst. er_instance (eventRange seg) = Some inst \<longrightarrow>
      (\<exists>obj. buildSegCompareObj seg = Inr obj
         \<and> obj ''start'' = Some (Val (JNum (case range_start (instance_range inst) of Some d \<Rightarrow> d | None \<Rightarrow> 0)))
         \<and> obj ''end'' = Some (Val (JNum (case range_end (instance_range inst) of Some d \<Rightarrow> d | None \<Rightarrow> 0)))
         \<and> obj ''duration'' =
             Some (Val (JNum ((case range_end (instance_range inst) of Some d \<Rightarrow> d | None \<Rightarrow> 0)
                              - (case range_start (instance_range inst) of Some d \<Rightarrow> d | None \<Rightarrow> 0))))
         \<and> obj ''allDay'' = Some (Val (JNum (if allDay (er_def (eventRange seg)) then 1 else 0)))
         \<and> obj ''id'' = Some (Val (JStr (publicId (er_def (eventRange seg)))))
         \<and> obj ''_seg'' = Some (SegRef seg))"
  by (simp add: buildSegCompareObj_def markerValue_def Let_def)

text \<open>
  The second example segment has no end; its extended properties and definition carry
  \<open>id\<close>, \<open>start\<close> and \<open>duration\<close> of their own, which the object does not keep.
\<close>

theorem buildSegCompareObj_fields_witness:
  "\<exists>obj. buildSegCompareObj exSeg2 = Inr obj
     \<and> obj ''start'' = Some (Val (JNum 1000)) \<and> obj ''end'' = Some (Val (JNum 0))
     \<and> obj ''duration'' = Some (Val (JNum (- 1000))) \<and> obj ''allDay'' = Some (Val (JNum 0))
     \<and> obj ''id'' = Some (Val (JStr ''ev1'')) \<and> obj ''_seg'' = Some (SegRef exSeg2)"
proof -
  have i: "er_instance (eventRange exSeg2) = Some exInstance2"
    by (simp add: exSeg2_def)
  from buildSegCompareObj_fields [of exSeg2] i
  obtain obj where o: "buildSegCompareObj exSeg2 = Inr obj"
    "obj ''start'' = Some (Val (JNum (case range_start (instance_range exInstance2) of Some d \<Rightarrow> d | None \<Rightarrow> 0)))"
    "obj ''end'' = Some (Val (JNum (case range_end (instance_range exInstance2) of Some d \<Rightarrow> d | None \<Rightarrow> 0)))"
    "obj ''duration'' =
             Some (Val (JNum ((case range_end (instance_range exInstance2) of Some d \<Rightarrow> d | None \<Rightarrow> 0)
                              - (case range_start (instance_range exInstance2) of Some d \<Rightarrow> d | None \<Rightarrow> 0))))"
    "obj ''allDay'' = Some (Val (JNum (if allDay (er_def (eventRange exSeg2)) then 1 else 0)))"
    "obj ''id'' = Some (Val (JStr (publicId (er_def (eventRange exSeg2)))))"
    "obj ''_seg'' = Some (SegRef exSeg2)"
    by blast
  have "obj ''start'' = Some (Val (JNum 1000))" "obj ''end'' = Some (Val (JNum 0))"
    "obj ''duration'' = Some (Val (JNum (- 1000)))" "obj ''allDay'' = Some (Val (JNum 0))"
    "obj ''id'' = Some (Val (JStr ''ev1''))"
    using o(2-6) by (simp_all add: exInstance2_def exSeg2_def exDef_def)
  with o(1,7) show ?thesis by blast
qed

text \<open>
  A segment without instance: the call raises, and no object is produced.
\<close>

theorem buildSegCompareObj_no_instance_counterexample:
  "buildSegCompareObj exSegNoInstance = Inl TypeError"
  by (simp add: buildSegCompareObj_def exSegNoInstance_def)

end
